theory Spec2Isabelle
  imports Complex_Main
begin

section \<open>Conventions of the embedding\<close>

text \<open>
  The weekly dashboard reads targets and actuals of KPI metrics from a spreadsheet whose
  layout it discovers, and computes a scorecard from them. This theory embeds the
  layout discovery with its cache, the resolution of the row of a metric, the KPI
  computation and the snapshot store, and proves properties of them.

  The backend is Go. Its values are embedded as follows.
  \<^item> A \<open>float64\<close> is a \<open>real\<close>: comparison with the constants of the code is exact on
    every finite float, and the arithmetic is the exact arithmetic that the float
    operations round. Not-a-number and the infinities are not values of the model.
  \<^item> An \<open>int\<close> is an \<open>int\<close>. The integers of the code are months, years, days, row and
    column positions and counters, far from the 64-bit bounds.
  \<^item> A \<open>string\<close> is a \<open>string\<close>, a list of bytes.
  \<^item> A \<open>time.Time\<close> is an \<open>int\<close>, the nanoseconds since some epoch.
  \<^item> An \<open>error\<close> is its message; a function returning \<open>(T, error)\<close> returns
    \<open>error + T\<close>, with \<open>Inl\<close> for the error.
  \<^item> The database and the spreadsheet service are outside the repository: a table is
    the list of rows its queries see, stored as they were written, and the outcome of
    each call that the code checks is a parameter of the function that makes the call.
  Log output is left out.
\<close>

type_synonym float64 = real
type_synonym error = string
type_synonym timestamp = int

section \<open>Models (package \<open>models\<close>)\<close>

record Indicator =
  Code :: string
  Department :: string
  Name :: string
  UnitOfMeasure :: string
  SpreadsheetName :: string
  SpreadsheetRow :: int
  IsInverse :: bool
  DisplayOrder :: int
  IsActive :: bool

record WeeklySnapshot =
  IndicatorID :: string
  ws_Department :: string
  IndicatorName :: string
  TargetValue :: float64
  PerformanceValue :: float64
  ws_Percentage :: float64
  SnapshotDate :: timestamp
  Month :: int
  WeekNumber :: int
  Year :: int

section \<open>The KPI computation engine (\<open>DashboardService\<close>)\<close>

text \<open>\<open>KPIData\<close> is what the sheet reader hands over for one metric.\<close>

record KPIData =
  IndicatorCode :: string
  kpi_Department :: string
  kpi_Name :: string
  Target :: float64
  Performance :: float64
  kpi_Percentage :: float64
  kpi_IsInverse :: bool

record IndicatorResponse =
  r_Code :: string
  r_Department :: string
  r_Name :: string
  r_Target :: float64
  r_Performance :: float64
  r_Percentage :: float64
  Status :: string
  r_IsInverse :: bool
  WowChange :: float64
  WowDirection :: string
  ExpectedProgress :: float64
  Variance :: float64
  ScheduleStatus :: string

record OverallPerformance =
  op_Percentage :: float64
  op_Status :: string
  GreenCount :: int
  YellowCount :: int
  RedCount :: int

record WeeklyTrend =
  Change :: float64
  Direction :: string
  GreenCountChange :: int

record Period =
  p_Month :: int
  p_Year :: int
  MonthName :: string

record ScheduleSummary =
  AheadCount :: int
  OnScheduleCount :: int
  BehindCount :: int

record DashboardResponse =
  Period :: Period
  OverallPerformance :: OverallPerformance
  WeeklyTrend :: WeeklyTrend
  ScheduleSummary :: ScheduleSummary
  Indicators :: "IndicatorResponse list"
  LastUpdated :: timestamp

subsection \<open>Status of one metric\<close>

definition calculateStatus :: "float64 \<Rightarrow> bool \<Rightarrow> string" where
  "calculateStatus percentage isInverse =
     (if isInverse then
        (if percentage \<ge> 100 then ''red''
         else if percentage \<ge> 85 then ''yellow''
         else if percentage \<ge> 55 then ''green''
         else ''supergreen'')
      else
        (if percentage > 100 then ''supergreen''
         else if percentage > 85 then ''green''
         else if percentage > 55 then ''yellow''
         else ''red''))"

subsection \<open>Schedule variance\<close>

text \<open>
  \<open>time.Date(year, month + 1, 0, ...)\<close> normalises the month into the year (month 13
  is January of the next year) and day 0 into the last day of the month before; its
  \<open>Day()\<close> is the length of that month in the proleptic Gregorian calendar.
\<close>

definition isLeap :: "int \<Rightarrow> bool" where
  "isLeap year = (year mod 4 = 0 \<and> (year mod 100 \<noteq> 0 \<or> year mod 400 = 0))"

definition daysIn :: "int \<Rightarrow> int \<Rightarrow> int" where
  "daysIn m year =
     (if m = 2 then (if isLeap year then 29 else 28)
      else if m = 4 \<or> m = 6 \<or> m = 9 \<or> m = 11 then 30
      else 31)"

definition daysInMonth :: "int \<Rightarrow> int \<Rightarrow> int" where
  "daysInMonth month year =
     (let m = month mod 12; y = year + month div 12
      in if m = 0 then 31 else daysIn m y)"

text \<open>\<open>math.Round\<close>: to the nearest integer, halves away from zero.\<close>

definition math_Round :: "float64 \<Rightarrow> float64" where
  "math_Round x = (if x < 0 then - of_int \<lfloor>- x + 1 / 2\<rfloor> else of_int \<lfloor>x + 1 / 2\<rfloor>)"

text \<open>
  \<open>calculateVariance\<close> reads the clock: \<open>currentDay\<close> is \<open>time.Now().Day()\<close>, the day
  of the month of the request, whatever month is asked for.
\<close>

definition calculateVariance ::
    "int \<Rightarrow> float64 \<Rightarrow> float64 \<Rightarrow> bool \<Rightarrow> int \<Rightarrow> int \<Rightarrow> float64 \<times> float64 \<times> string" where
  "calculateVariance currentDay target actual isInverse month year =
     (if target = 0 then (0, 0, ''on_schedule'')
      else
        let totalDays = daysInMonth month year;
            progressRatio = of_int currentDay / of_int totalDays;
            expectedProgress = target * progressRatio
        in if expectedProgress = 0 then (expectedProgress, 0, ''on_schedule'')
           else
             let variance =
                   (if isInverse then ((expectedProgress - actual) / expectedProgress) * 100
                    else ((actual - expectedProgress) / expectedProgress) * 100);
                 variance = math_Round (variance * 10) / 10;
                 expectedProgress = math_Round (expectedProgress * 100) / 100;
                 scheduleStatus =
                   (if variance > 5 then ''ahead''
                    else if variance < - 5 then ''behind''
                    else ''on_schedule'')
             in (expectedProgress, variance, scheduleStatus))"

definition getMonthName :: "int \<Rightarrow> string" where
  "getMonthName month =
     (let months = ['''', ''January'', ''February'', ''March'', ''April'', ''May'', ''June'',
                    ''July'', ''August'', ''September'', ''October'', ''November'', ''December'']
      in if month \<ge> 1 \<and> month \<le> 12 then months ! nat month else '''')"

subsection \<open>Week over week\<close>

text \<open>
  The query \<open>Where("month = ? AND year = ?").Order("snapshot_date desc")\<close>. The
  database leaves the order of rows of one date open; the model keeps the order of the
  table among them.
\<close>

definition snapshotsOfMonth :: "WeeklySnapshot list \<Rightarrow> int \<Rightarrow> int \<Rightarrow> WeeklySnapshot list" where
  "snapshotsOfMonth weekly_snapshots month year =
     sort_key (\<lambda>record. - SnapshotDate record)
       (filter (\<lambda>record. Month record = month \<and> Year record = year) weekly_snapshots)"

text \<open>The loop of \<open>getPreviousWeekSnapshots\<close>: the first record of each indicator wins.\<close>

fun mostRecent ::
    "WeeklySnapshot list \<Rightarrow> (string \<rightharpoonup> float64) \<times> (string \<Rightarrow> bool) \<Rightarrow>
     (string \<rightharpoonup> float64) \<times> (string \<Rightarrow> bool)" where
  "mostRecent [] (snapshots, seen) = (snapshots, seen)"
| "mostRecent (record # records) (snapshots, seen) =
     (if \<not> seen (IndicatorID record)
      then mostRecent records
             (snapshots(IndicatorID record \<mapsto> ws_Percentage record),
              seen(IndicatorID record := True))
      else mostRecent records (snapshots, seen))"

definition getPreviousWeekSnapshots ::
    "WeeklySnapshot list \<Rightarrow> int \<Rightarrow> int \<Rightarrow> (string \<rightharpoonup> float64)" where
  "getPreviousWeekSnapshots weekly_snapshots month year =
     fst (mostRecent (snapshotsOfMonth weekly_snapshots month year) (Map.empty, \<lambda>_. False))"

definition calculateWoWChange ::
    "string \<Rightarrow> float64 \<Rightarrow> (string \<rightharpoonup> float64) \<Rightarrow> float64 \<times> string" where
  "calculateWoWChange indicatorCode currentPercentage prevSnapshots =
     (case prevSnapshots indicatorCode of
        None \<Rightarrow> (0, ''neutral'')
      | Some prevPercentage \<Rightarrow>
          if prevPercentage = 0 then (0, ''neutral'')
          else
            let change = currentPercentage - prevPercentage;
                direction =
                  (if change > 0.5 then ''up''
                   else if change < - 0.5 then ''down''
                   else ''neutral'')
            in (change, direction))"

text \<open>
  \<open>calculateWeeklyTrend\<close>: the overall percentage of the most recent snapshot of the
  month against the current one. \<open>indicators\<close> is the whole indicators table.
\<close>

definition calculateWeeklyTrend ::
    "WeeklySnapshot list \<Rightarrow> Indicator list \<Rightarrow> int \<Rightarrow> int \<Rightarrow> float64 \<Rightarrow> float64 \<times> string \<times> int" where
  "calculateWeeklyTrend weekly_snapshots indicators month year currentPercentage =
     (case snapshotsOfMonth weekly_snapshots month year of
        [] \<Rightarrow> (0, ''neutral'', 0)
      | lastSnapshot # _ \<Rightarrow>
          let snapshots =
                filter (\<lambda>snap. SnapshotDate snap = SnapshotDate lastSnapshot) weekly_snapshots
          in if length snapshots = 0 then (0, ''neutral'', 0)
             else
               let inverseMap =
                     (\<lambda>code. case map_of (map (\<lambda>ind. (Code ind, IsInverse ind)) (rev indicators)) code of
                               None \<Rightarrow> False | Some b \<Rightarrow> b);
                   prevGreenCount =
                     int (length (filter
                       (\<lambda>snap. let status = calculateStatus (ws_Percentage snap)
                                               (inverseMap (IndicatorID snap))
                               in status = ''green'' \<or> status = ''supergreen'') snapshots));
                   prevOverallPercentage =
                     (of_int prevGreenCount / of_nat (length snapshots)) * 100;
                   change = currentPercentage - prevOverallPercentage;
                   direction =
                     (if change > 0.5 then ''up''
                      else if change < - 0.5 then ''down''
                      else ''neutral'')
               in (change, direction, prevGreenCount))"

subsection \<open>The dashboard of one period\<close>

text \<open>The percentage of one metric, as the loop of \<open>GetDashboardData\<close> computes it.\<close>

definition calculatedPercentage :: "KPIData \<Rightarrow> float64" where
  "calculatedPercentage kpiData =
     (let calculatedPercentage =
            (if Target kpiData \<noteq> 0 then (Performance kpiData / Target kpiData) * 100 else 0)
      in if calculatedPercentage > 999 then 999 else calculatedPercentage)"

text \<open>One round of the loop over \<open>kpiDataList\<close>: the response of the metric.\<close>

definition indicatorResponse ::
    "(string \<rightharpoonup> float64) \<Rightarrow> int \<Rightarrow> int \<Rightarrow> int \<Rightarrow> KPIData \<Rightarrow> IndicatorResponse" where
  "indicatorResponse prevSnapshots currentDay month year kpiData =
     (let status = calculateStatus (calculatedPercentage kpiData) (kpi_IsInverse kpiData);
          (wowChange, wowDirection) =
            calculateWoWChange (IndicatorCode kpiData) (calculatedPercentage kpiData) prevSnapshots;
          (expectedProgress, variance, scheduleStatus) =
            calculateVariance currentDay (Target kpiData) (Performance kpiData)
              (kpi_IsInverse kpiData) month year
      in \<lparr>r_Code = IndicatorCode kpiData,
          r_Department = kpi_Department kpiData,
          r_Name = kpi_Name kpiData,
          r_Target = Target kpiData,
          r_Performance = Performance kpiData,
          r_Percentage = calculatedPercentage kpiData,
          Status = status,
          r_IsInverse = kpi_IsInverse kpiData,
          WowChange = wowChange,
          WowDirection = wowDirection,
          ExpectedProgress = expectedProgress,
          Variance = variance,
          ScheduleStatus = scheduleStatus\<rparr>)"

text \<open>
  The loop, with its four accumulators: the responses and the green, yellow and red
  counters. The cases of the \<open>switch\<close> on the status exclude each other, and it has no
  default: another status counts nowhere.
\<close>

fun indicatorLoop ::
    "(string \<rightharpoonup> float64) \<Rightarrow> int \<Rightarrow> int \<Rightarrow> int \<Rightarrow> KPIData list \<Rightarrow>
     IndicatorResponse list \<times> int \<times> int \<times> int \<Rightarrow> IndicatorResponse list \<times> int \<times> int \<times> int" where
  "indicatorLoop prevSnapshots currentDay month year []
     (indicatorResponses, greenCount, yellowCount, redCount) =
     (indicatorResponses, greenCount, yellowCount, redCount)"
| "indicatorLoop prevSnapshots currentDay month year (kpiData # kpiDataList)
     (indicatorResponses, greenCount, yellowCount, redCount) =
     (let response = indicatorResponse prevSnapshots currentDay month year kpiData;
          status = Status response
      in indicatorLoop prevSnapshots currentDay month year kpiDataList
           (indicatorResponses @ [response],
            (if status = ''green'' \<or> status = ''supergreen'' then greenCount + 1 else greenCount),
            (if status = ''yellow'' then yellowCount + 1 else yellowCount),
            (if status = ''red'' then redCount + 1 else redCount)))"

definition scheduleSummary :: "IndicatorResponse list \<Rightarrow> ScheduleSummary" where
  "scheduleSummary indicatorResponses =
     \<lparr>AheadCount = int (length (filter (\<lambda>ind. ScheduleStatus ind = ''ahead'') indicatorResponses)),
      OnScheduleCount =
        int (length (filter (\<lambda>ind. ScheduleStatus ind = ''on_schedule'') indicatorResponses)),
      BehindCount =
        int (length (filter (\<lambda>ind. ScheduleStatus ind = ''behind'') indicatorResponses))\<rparr>"

text \<open>
  \<open>GetDashboardData\<close>. Its surroundings are parameters: \<open>findIndicators\<close> is the
  outcome of the query for the active indicators, \<open>spreadsheetYear\<close> the configured
  year, \<open>fetchKPIData\<close> the outcome of the sheet read for those indicators,
  \<open>weekly_snapshots\<close> and \<open>allIndicators\<close> the two tables, \<open>now\<close> the clock and
  \<open>currentDay\<close> its day of the month. A failed sheet read leaves an empty list.
\<close>

definition GetDashboardData ::
    "error + Indicator list \<Rightarrow> int \<Rightarrow> (Indicator list \<Rightarrow> int \<Rightarrow> error + KPIData list) \<Rightarrow>
     WeeklySnapshot list \<Rightarrow> Indicator list \<Rightarrow> timestamp \<Rightarrow> int \<Rightarrow> int \<Rightarrow> int \<Rightarrow>
     error + DashboardResponse" where
  "GetDashboardData findIndicators spreadsheetYear fetchKPIData weekly_snapshots allIndicators
     now currentDay month year =
     (case findIndicators of
        Inl err \<Rightarrow> Inl err
      | Inr indicators \<Rightarrow>
          let kpiDataList =
                (if year = spreadsheetYear
                 then (case fetchKPIData indicators month of Inl err \<Rightarrow> [] | Inr l \<Rightarrow> l)
                 else []);
              prevSnapshots = getPreviousWeekSnapshots weekly_snapshots month year;
              (indicatorResponses, greenCount, yellowCount, redCount) =
                indicatorLoop prevSnapshots currentDay month year kpiDataList ([], 0, 0, 0);
              totalIndicators = greenCount + yellowCount + redCount;
              overallPercentage =
                (if totalIndicators > 0
                 then (of_int greenCount / of_int totalIndicators) * 100 else 0);
              overallStatus =
                (if overallPercentage > 85 then ''green''
                 else if overallPercentage > 55 then ''yellow''
                 else ''red'');
              (weeklyChange, weeklyDirection, prevGreenCount) =
                calculateWeeklyTrend weekly_snapshots allIndicators month year overallPercentage;
              greenCountChange = greenCount - prevGreenCount
          in Inr \<lparr>Period = \<lparr>p_Month = month, p_Year = year, MonthName = getMonthName month\<rparr>,
                  OverallPerformance =
                    \<lparr>op_Percentage = overallPercentage, op_Status = overallStatus,
                     GreenCount = greenCount, YellowCount = yellowCount, RedCount = redCount\<rparr>,
                  WeeklyTrend =
                    \<lparr>Change = weeklyChange, Direction = weeklyDirection,
                     GreenCountChange = greenCountChange\<rparr>,
                  ScheduleSummary = scheduleSummary indicatorResponses,
                  Indicators = indicatorResponses,
                  LastUpdated = now\<rparr>)"

section \<open>The snapshot store\<close>

text \<open>The row that \<open>SaveSnapshot\<close> builds for one indicator.\<close>

definition snapshotOf :: "timestamp \<Rightarrow> int \<Rightarrow> int \<Rightarrow> int \<Rightarrow> IndicatorResponse \<Rightarrow> WeeklySnapshot" where
  "snapshotOf snapshotDate month year weekNumber indicator =
     \<lparr>IndicatorID = r_Code indicator,
      ws_Department = r_Department indicator,
      IndicatorName = r_Name indicator,
      TargetValue = r_Target indicator,
      PerformanceValue = r_Performance indicator,
      ws_Percentage = r_Percentage indicator,
      SnapshotDate = snapshotDate,
      Month = month,
      WeekNumber = weekNumber,
      Year = year\<rparr>"

text \<open>
  The loop of inserts. \<open>createError i\<close> is the error of the \<open>i\<close>-th \<open>Create\<close> of the
  call, if it fails; the loop returns it at once and keeps the rows already written.
\<close>

fun createAll ::
    "(nat \<Rightarrow> error option) \<Rightarrow> nat \<Rightarrow> WeeklySnapshot list \<Rightarrow> WeeklySnapshot list \<Rightarrow>
     error option \<times> WeeklySnapshot list" where
  "createAll createError i [] weekly_snapshots = (None, weekly_snapshots)"
| "createAll createError i (snapshot # snapshots) weekly_snapshots =
     (case createError i of
        Some err \<Rightarrow> (Some err, weekly_snapshots)
      | None \<Rightarrow> createAll createError (Suc i) snapshots (weekly_snapshots @ [snapshot]))"

text \<open>
  \<open>SaveSnapshot\<close> returns its error (\<open>None\<close> for \<open>nil\<close>) and the table it leaves.
  \<open>deleteError\<close> is the error of the \<open>Delete\<close>, if it fails: the code logs it as a
  warning and goes on to the inserts. A failed \<open>Delete\<close> removes nothing.
\<close>

definition SaveSnapshot ::
    "error option \<Rightarrow> (nat \<Rightarrow> error option) \<Rightarrow> timestamp \<Rightarrow> WeeklySnapshot list \<Rightarrow>
     IndicatorResponse list \<Rightarrow> int \<Rightarrow> int \<Rightarrow> int \<Rightarrow> error option \<times> WeeklySnapshot list" where
  "SaveSnapshot deleteError createError now weekly_snapshots indicators month year weekNumber =
     (let snapshotDate = now;
          weekly_snapshots =
            (case deleteError of
               Some err \<Rightarrow> weekly_snapshots
             | None \<Rightarrow>
                 filter (\<lambda>row. \<not> (Month row = month \<and> Year row = year \<and> WeekNumber row = weekNumber))
                   weekly_snapshots)
      in createAll createError 0
           (map (snapshotOf snapshotDate month year weekNumber) indicators) weekly_snapshots)"

text \<open>The rows of one week, as the \<open>Where\<close> of \<open>SaveSnapshot\<close> selects them.\<close>

definition rowsOfWeek :: "WeeklySnapshot list \<Rightarrow> int \<Rightarrow> int \<Rightarrow> int \<Rightarrow> WeeklySnapshot list" where
  "rowsOfWeek weekly_snapshots month year weekNumber =
     filter (\<lambda>row. Month row = month \<and> Year row = year \<and> WeekNumber row = weekNumber)
       weekly_snapshots"

section \<open>The sheet reader (\<open>SheetsService\<close>)\<close>

subsection \<open>Strings\<close>

text \<open>
  \<open>strings.ToLower\<close> and \<open>strings.TrimSpace\<close> of the Go library work on Unicode text;
  their code is not part of the repository. The functions that call them take the two as
  a parameter, and every theorem holds whatever they compute.
\<close>

record strings_lib =
  ToLower :: "string \<Rightarrow> string"
  TrimSpace :: "string \<Rightarrow> string"

text \<open>The two functions on ASCII text, for concrete inputs.\<close>

definition asciiToLower :: "string \<Rightarrow> string" where
  "asciiToLower s =
     map (\<lambda>c. case map_of (zip ''ABCDEFGHIJKLMNOPQRSTUVWXYZ'' ''abcdefghijklmnopqrstuvwxyz'') c of
                None \<Rightarrow> c | Some l \<Rightarrow> l) s"

definition asciiSpace :: "char \<Rightarrow> bool" where
  "asciiSpace c = (c \<in> set [CHR '' '', CHR 0x09, CHR 0x0A, CHR 0x0B, CHR 0x0C, CHR 0x0D])"

definition asciiTrimSpace :: "string \<Rightarrow> string" where
  "asciiTrimSpace s = rev (dropWhile asciiSpace (rev (dropWhile asciiSpace s)))"

definition asciiStrings :: strings_lib where
  "asciiStrings = \<lparr>ToLower = asciiToLower, TrimSpace = asciiTrimSpace\<rparr>"

text \<open>The byte-level functions of package \<open>strings\<close>.\<close>

definition HasPrefix :: "string \<Rightarrow> string \<Rightarrow> bool" where
  "HasPrefix s prefix = (length s \<ge> length prefix \<and> take (length prefix) s = prefix)"

definition HasSuffix :: "string \<Rightarrow> string \<Rightarrow> bool" where
  "HasSuffix s suffix =
     (length s \<ge> length suffix \<and> drop (length s - length suffix) s = suffix)"

definition TrimPrefix :: "string \<Rightarrow> string \<Rightarrow> string" where
  "TrimPrefix s prefix = (if HasPrefix s prefix then drop (length prefix) s else s)"

definition TrimSuffix :: "string \<Rightarrow> string \<Rightarrow> string" where
  "TrimSuffix s suffix = (if HasSuffix s suffix then take (length s - length suffix) s else s)"

text \<open>\<open>%d\<close> of \<open>fmt.Sprintf\<close>: the decimal digits, a minus sign before a negative number.\<close>

fun digits :: "nat \<Rightarrow> string" where
  "digits n =
     (if n < 10 then [char_of (48 + n)] else digits (n div 10) @ [char_of (48 + n mod 10)])"

definition Itoa :: "int \<Rightarrow> string" where
  "Itoa i = (if i < 0 then CHR ''-'' # digits (nat (- i)) else digits (nat i))"

definition formatSheetName :: "string \<Rightarrow> string" where
  "formatSheetName name =
     (if CHR '' '' \<in> set name then [CHR 0x27] @ name @ [CHR 0x27] else name)"

subsection \<open>The spreadsheet and its layout\<close>

text \<open>
  A cell of a response is an \<open>interface{}\<close>: a string, a number, a boolean or \<open>nil\<close>.
  The service is its \<open>Spreadsheets.Values.Get(spreadsheetID, range).Do()\<close>: the rows of
  the range, or an error.
\<close>

datatype cell = CString string | CNumber float64 | CBool bool | CNil

type_synonym sheets_Service = "string \<Rightarrow> string \<Rightarrow> error + cell list list"

text \<open>
  \<open>MonthColumns\<close> holds a \<open>[4]int\<close> per month: target, lagging, percent and perf
  column, in this order; the array is a list of length 4.
\<close>

record DiscoveredLayout =
  MonthColumns :: "int \<rightharpoonup> int list"
  KPIRows :: "string \<rightharpoonup> int list"
  LastRefresh :: timestamp

definition nameToMonth :: "(string \<times> int) list" where
  "nameToMonth =
     [(''january'', 1), (''february'', 2), (''march'', 3), (''april'', 4),
      (''may'', 5), (''june'', 6), (''july'', 7), (''august'', 8),
      (''september'', 9), (''october'', 10), (''november'', 11), (''december'', 12)]"

text \<open>
  \<open>matchMonthFromHeader\<close>. The two loops over \<open>nameToMonth\<close> compare the header with
  each month name followed by a suffix; at most one name fits, so the order of the
  iteration does not show.
\<close>

definition matchMonthFromHeader :: "strings_lib \<Rightarrow> string \<Rightarrow> int \<times> string" where
  "matchMonthFromHeader L header =
     (let h = TrimSpace L header;
          lower = ToLower L h
      in case (if HasPrefix lower ''% '' \<and> HasSuffix lower '' performance''
               then map_of nameToMonth
                      (TrimSpace L (TrimSuffix (TrimPrefix lower ''% '') '' performance''))
               else None) of
           Some m \<Rightarrow> (m, ''percent'')
         | None \<Rightarrow>
            (case find (\<lambda>(name, m). lower = name @ '' target'') nameToMonth of
               Some (name, m) \<Rightarrow> (m, ''target'')
             | None \<Rightarrow>
                (case find (\<lambda>(name, m). lower = name @ '' lagging'') nameToMonth of
                   Some (name, m) \<Rightarrow> (m, ''lagging'')
                 | None \<Rightarrow>
                    (case map_of nameToMonth lower of
                       Some m \<Rightarrow> (m, ''perf'')
                     | None \<Rightarrow> (0, '''')))))"

subsection \<open>Discovery\<close>

text \<open>
  The loop of \<open>discoverColumns\<close> over the header row. \<open>result[month]\<close> of a month not
  yet in the map is the zero array.
\<close>

fun columnsLoop ::
    "strings_lib \<Rightarrow> int \<Rightarrow> cell list \<Rightarrow> (int \<rightharpoonup> int list) \<Rightarrow> (int \<rightharpoonup> int list)" where
  "columnsLoop L colIdx [] result = result"
| "columnsLoop L colIdx (cell # cells) result =
     (case cell of
        CString headerText \<Rightarrow>
          (case matchMonthFromHeader L headerText of
             (month, colType) \<Rightarrow>
               if month = 0 then columnsLoop L (colIdx + 1) cells result
               else
                 let entry = (case result month of None \<Rightarrow> [0, 0, 0, 0] | Some e \<Rightarrow> e);
                     entry =
                       (if colType = ''target'' then entry[0 := colIdx]
                        else if colType = ''lagging'' then entry[1 := colIdx]
                        else if colType = ''percent'' then entry[2 := colIdx]
                        else if colType = ''perf'' then entry[3 := colIdx]
                        else entry)
                 in columnsLoop L (colIdx + 1) cells (result(month \<mapsto> entry)))
      | _ \<Rightarrow> columnsLoop L (colIdx + 1) cells result)"

definition discoverColumns ::
    "strings_lib \<Rightarrow> sheets_Service \<Rightarrow> string \<Rightarrow> string \<Rightarrow> error + (int \<rightharpoonup> int list)" where
  "discoverColumns L srv spreadsheetID sheetName =
     (let rangeStr = formatSheetName sheetName @ ''!1:1''
      in case srv spreadsheetID rangeStr of
           Inl err \<Rightarrow> Inl (''failed to fetch header row: '' @ err)
         | Inr values \<Rightarrow>
            (case values of
               [] \<Rightarrow> Inl ''header row is empty''
             | row # _ \<Rightarrow>
                 if length row = 0 then Inl ''header row is empty''
                 else Inr (columnsLoop L 0 row Map.empty)))"

text \<open>The loop of \<open>discoverRows\<close> over the rows of column C.\<close>

fun rowsLoop ::
    "strings_lib \<Rightarrow> int \<Rightarrow> cell list list \<Rightarrow> (string \<rightharpoonup> int list) \<Rightarrow> (string \<rightharpoonup> int list)" where
  "rowsLoop L rowIdx [] result = result"
| "rowsLoop L rowIdx (row # rows) result =
     (case row of
        [] \<Rightarrow> rowsLoop L (rowIdx + 1) rows result
      | CString cellStr # _ \<Rightarrow>
          if cellStr = '''' then rowsLoop L (rowIdx + 1) rows result
          else
            let key = ToLower L (TrimSpace L cellStr)
            in rowsLoop L (rowIdx + 1) rows
                 (result(key \<mapsto> (case result key of None \<Rightarrow> [] | Some rs \<Rightarrow> rs) @ [rowIdx + 1]))
      | _ # _ \<Rightarrow> rowsLoop L (rowIdx + 1) rows result)"

definition discoverRows ::
    "strings_lib \<Rightarrow> sheets_Service \<Rightarrow> string \<Rightarrow> string \<Rightarrow> error + (string \<rightharpoonup> int list)" where
  "discoverRows L srv spreadsheetID sheetName =
     (let rangeStr = formatSheetName sheetName @ ''!C:C''
      in case srv spreadsheetID rangeStr of
           Inl err \<Rightarrow> Inl (''failed to fetch column C: '' @ err)
         | Inr values \<Rightarrow>
             if length values = 0 then Inr Map.empty
             else Inr (rowsLoop L 0 values Map.empty))"

text \<open>\<open>DiscoverLayout\<close>; \<open>now\<close> is the clock when the layout is built.\<close>

definition DiscoverLayout ::
    "strings_lib \<Rightarrow> sheets_Service \<Rightarrow> timestamp \<Rightarrow> string \<Rightarrow> string \<Rightarrow> error + DiscoveredLayout" where
  "DiscoverLayout L srv now spreadsheetID sheetName =
     (case discoverColumns L srv spreadsheetID sheetName of
        Inl err \<Rightarrow> Inl (''column discovery failed: '' @ err)
      | Inr monthCols \<Rightarrow>
         (case discoverRows L srv spreadsheetID sheetName of
            Inl err \<Rightarrow> Inl (''row discovery failed: '' @ err)
          | Inr kpiRows \<Rightarrow>
              Inr \<lparr>MonthColumns = monthCols, KPIRows = kpiRows, LastRefresh = now\<rparr>))"

subsection \<open>The row of a metric\<close>

definition abs_int :: "int \<Rightarrow> int" where
  "abs_int x = (if x < 0 then - x else x)"

text \<open>The loop of \<open>getIndicatorRow\<close> over \<open>rows[1:]\<close>, with \<open>best\<close> and \<open>bestDiff\<close>.\<close>

fun closestRow :: "int \<Rightarrow> int list \<Rightarrow> int \<times> int \<Rightarrow> int \<times> int" where
  "closestRow spreadsheetRow [] (best, bestDiff) = (best, bestDiff)"
| "closestRow spreadsheetRow (r # rows) (best, bestDiff) =
     (let diff = abs_int (r - spreadsheetRow)
      in if diff < bestDiff then closestRow spreadsheetRow rows (r, diff)
         else closestRow spreadsheetRow rows (best, bestDiff))"

definition getIndicatorRow :: "strings_lib \<Rightarrow> DiscoveredLayout \<Rightarrow> Indicator \<Rightarrow> int \<times> bool" where
  "getIndicatorRow L layout indicator =
     (let fallback =
            (if SpreadsheetRow indicator > 0 then (SpreadsheetRow indicator, True)
             else (0, False))
      in if SpreadsheetName indicator \<noteq> '''' then
           (let key = ToLower L (TrimSpace L (SpreadsheetName indicator))
            in case KPIRows layout key of
                 None \<Rightarrow> fallback
               | Some [] \<Rightarrow> fallback
               | Some (r # rows) \<Rightarrow>
                   if length (r # rows) = 1 then (r, True)
                   else
                     (fst (closestRow (SpreadsheetRow indicator) rows
                             (r, abs_int (r - SpreadsheetRow indicator))),
                      True))
         else fallback)"

text \<open>
  The loop of \<open>FetchKPIData\<close> that builds the batch: one range per active indicator
  whose row is found, the others passed over. It returns \<open>ranges\<close> and
  \<open>activeIndicators\<close>.
\<close>

fun batchLoop ::
    "strings_lib \<Rightarrow> DiscoveredLayout \<Rightarrow> string \<Rightarrow> string \<Rightarrow> Indicator list \<Rightarrow>
     string list \<times> Indicator list \<Rightarrow> string list \<times> Indicator list" where
  "batchLoop L layout sheetName lastColLetter [] (ranges, activeIndicators) =
     (ranges, activeIndicators)"
| "batchLoop L layout sheetName lastColLetter (indicator # indicators) (ranges, activeIndicators) =
     (if \<not> IsActive indicator
      then batchLoop L layout sheetName lastColLetter indicators (ranges, activeIndicators)
      else
        case getIndicatorRow L layout indicator of
          (row, found) \<Rightarrow>
            if \<not> found
            then batchLoop L layout sheetName lastColLetter indicators (ranges, activeIndicators)
            else
              let rangeStr =
                    formatSheetName sheetName @ ''!A'' @ Itoa row @ '':'' @ lastColLetter @ Itoa row
              in batchLoop L layout sheetName lastColLetter indicators
                   (ranges @ [rangeStr], activeIndicators @ [indicator]))"

section \<open>The layout cache (\<open>GetLayout\<close>)\<close>

text \<open>
  \<open>GetLayout\<close> and \<open>InvalidateLayout\<close> are the two users of the lock \<open>layoutMu\<close>. Many
  requests run them at once, so the model is a transition system: the service with its
  cached layout and its lock, the clock, and one location per call in progress. A call
  moves from a location to the next in one step; the steps of different calls
  interleave in any order.

  The locations of a call of \<open>GetLayout\<close>, by what it has done so far:
  \<^item> \<open>Called\<close>: nothing yet; its next step is \<open>RLock\<close>;
  \<^item> \<open>ReadLocked\<close>: it holds the read lock; next it tests the freshness of the cache and
    either returns the cached layout or gives the read lock back;
  \<^item> \<open>Unlocked\<close>: it saw a stale or empty cache and holds no lock; its next step is \<open>Lock\<close>;
  \<^item> \<open>WriteLocked\<close>: it holds the write lock; next it tests the freshness again;
  \<^item> \<open>Creating\<close>: \<open>CreateSheetsClient\<close> is in flight, under the write lock;
  \<^item> \<open>Discovering\<close>: \<open>DiscoverLayout\<close> is in flight, under the write lock;
  \<^item> \<open>Returned r\<close>: it has returned \<open>r\<close>, all locks given back.
  A call of \<open>InvalidateLayout\<close> is at \<open>InvCalled\<close>, then at \<open>InvLocked\<close> with the write
  lock, then at \<open>InvReturned\<close>.

  \<open>sync.RWMutex\<close> grants \<open>RLock\<close> when no writer holds the lock and \<open>Lock\<close> when nobody
  holds it; a call that is not granted the lock cannot step.
\<close>

datatype location =
    Called | ReadLocked | Unlocked | WriteLocked | Creating | Discovering
  | Returned "error + DiscoveredLayout"
  | InvCalled | InvLocked | InvReturned

record system =
  layout :: "DiscoveredLayout option"
  layoutMu_readers :: nat
  layoutMu_writer :: bool
  clock :: timestamp
  calls :: "location list"
  discoveries :: nat

text \<open>\<open>discoveries\<close> counts the calls of \<open>DiscoverLayout\<close> started so far.\<close>

definition Minute :: timestamp where
  "Minute = 60 * 1000000000"

text \<open>
  The test \<open>s.layout != nil && time.Since(s.layout.LastRefresh) < 5*time.Minute\<close>:
  the cached layout when it is fresh.
\<close>

definition freshLayout :: "system \<Rightarrow> DiscoveredLayout option" where
  "freshLayout s =
     (case layout s of
        None \<Rightarrow> None
      | Some l \<Rightarrow> if clock s - LastRefresh l < 5 * Minute then Some l else None)"

text \<open>What \<open>GetLayout\<close> returns when the refresh fails with \<open>err\<close>.\<close>

definition cachedOr :: "system \<Rightarrow> error \<Rightarrow> error + DiscoveredLayout" where
  "cachedOr s err = (case layout s of Some l \<Rightarrow> Inr l | None \<Rightarrow> Inl err)"

text \<open>
  What can happen next:
  \<^item> \<open>Call\<close>, \<open>CallInvalidate\<close>: a new call of \<open>GetLayout\<close> or \<open>InvalidateLayout\<close> starts;
  \<^item> \<open>Run i\<close>: call \<open>i\<close> takes its next step inside the service;
  \<^item> \<open>ClientResult i r\<close>: the \<open>CreateSheetsClient\<close> of call \<open>i\<close> returns, with error \<open>r\<close>
    or with a client;
  \<^item> \<open>Discovered i srv now\<close>: the \<open>DiscoverLayout\<close> of call \<open>i\<close> returns, having read the
    responses \<open>srv\<close> and the clock \<open>now\<close>;
  \<^item> \<open>Tick t\<close>: the clock moves on to \<open>t\<close>.
\<close>

datatype event =
    Call | CallInvalidate | Run nat | ClientResult nat "error option"
  | Discovered nat sheets_Service timestamp | Tick timestamp

definition moveTo :: "nat \<Rightarrow> location \<Rightarrow> system \<Rightarrow> system" where
  "moveTo i l s = s\<lparr>calls := (calls s)[i := l]\<rparr>"

text \<open>
  The steps of call \<open>i\<close> inside the service, by its location:
  \<^item> at \<open>Called\<close>, \<open>s.layoutMu.RLock()\<close>, when it is granted;
  \<^item> at \<open>ReadLocked\<close>, the first test: with a fresh layout, \<open>return s.layout, nil\<close> with the
    deferred \<open>RUnlock\<close>; otherwise \<open>s.layoutMu.RUnlock()\<close>;
  \<^item> at \<open>Unlocked\<close>, \<open>s.layoutMu.Lock()\<close>, when it is granted;
  \<^item> at \<open>WriteLocked\<close>, the second test: with a fresh layout, \<open>return s.layout, nil\<close> with
    the deferred \<open>Unlock\<close>; otherwise the call of \<open>CreateSheetsClient\<close>;
  \<^item> at \<open>InvCalled\<close>, \<open>s.layoutMu.Lock()\<close>, when it is granted;
  \<^item> at \<open>InvLocked\<close>, \<open>s.layout = nil\<close> and the deferred \<open>Unlock\<close>.
  A call that waits for a result from outside, or has returned, has no step of its own.
\<close>

definition runCall :: "nat \<Rightarrow> system \<Rightarrow> system option" where
  "runCall i s =
     (if i \<ge> length (calls s) then None
      else case calls s ! i of
        Called \<Rightarrow>
          if layoutMu_writer s then None
          else Some (moveTo i ReadLocked (s\<lparr>layoutMu_readers := layoutMu_readers s + 1\<rparr>))
      | ReadLocked \<Rightarrow>
          (case freshLayout s of
             Some l \<Rightarrow> Some (moveTo i (Returned (Inr l)) (s\<lparr>layoutMu_readers := layoutMu_readers s - 1\<rparr>))
           | None \<Rightarrow> Some (moveTo i Unlocked (s\<lparr>layoutMu_readers := layoutMu_readers s - 1\<rparr>)))
      | Unlocked \<Rightarrow>
          if layoutMu_writer s \<or> layoutMu_readers s \<noteq> 0 then None
          else Some (moveTo i WriteLocked (s\<lparr>layoutMu_writer := True\<rparr>))
      | WriteLocked \<Rightarrow>
          (case freshLayout s of
             Some l \<Rightarrow> Some (moveTo i (Returned (Inr l)) (s\<lparr>layoutMu_writer := False\<rparr>))
           | None \<Rightarrow> Some (moveTo i Creating s))
      | InvCalled \<Rightarrow>
          if layoutMu_writer s \<or> layoutMu_readers s \<noteq> 0 then None
          else Some (moveTo i InvLocked (s\<lparr>layoutMu_writer := True\<rparr>))
      | InvLocked \<Rightarrow>
          Some (moveTo i InvReturned (s\<lparr>layout := None, layoutMu_writer := False\<rparr>))
      | _ \<Rightarrow> None)"

text \<open>
  One step of the system. When \<open>CreateSheetsClient\<close> or \<open>DiscoverLayout\<close> fails, the call
  returns the cached layout if there is one, stale as it is, and the error otherwise.
  When \<open>DiscoverLayout\<close> succeeds, the call stores the new layout and returns it. In all
  three cases the deferred \<open>Unlock\<close> gives the write lock back. \<open>DiscoverLayout\<close> reads
  the clock before it returns: \<open>now\<close> is not later than the clock of the step. A step
  that cannot be taken is \<open>None\<close>.
\<close>

definition step :: "strings_lib \<Rightarrow> string \<Rightarrow> string \<Rightarrow> event \<Rightarrow> system \<Rightarrow> system option" where
  "step L spreadsheetID sheetName e s =
     (case e of
        Call \<Rightarrow> Some (s\<lparr>calls := calls s @ [Called]\<rparr>)
      | CallInvalidate \<Rightarrow> Some (s\<lparr>calls := calls s @ [InvCalled]\<rparr>)
      | Run i \<Rightarrow> runCall i s
      | ClientResult i r \<Rightarrow>
          if i \<ge> length (calls s) then None
          else (case calls s ! i of
             Creating \<Rightarrow>
               (case r of
                  Some err \<Rightarrow>
                    Some (moveTo i (Returned (cachedOr s err)) (s\<lparr>layoutMu_writer := False\<rparr>))
                | None \<Rightarrow> Some (moveTo i Discovering (s\<lparr>discoveries := discoveries s + 1\<rparr>)))
           | _ \<Rightarrow> None)
      | Discovered i srv now \<Rightarrow>
          if i \<ge> length (calls s) \<or> now > clock s then None
          else (case calls s ! i of
             Discovering \<Rightarrow>
               (case DiscoverLayout L srv now spreadsheetID sheetName of
                  Inl err \<Rightarrow>
                    Some (moveTo i (Returned (cachedOr s err)) (s\<lparr>layoutMu_writer := False\<rparr>))
                | Inr l \<Rightarrow>
                    Some (moveTo i (Returned (Inr l))
                            (s\<lparr>layout := Some l, layoutMu_writer := False\<rparr>)))
           | _ \<Rightarrow> None)
      | Tick t \<Rightarrow> if clock s \<le> t then Some (s\<lparr>clock := t\<rparr>) else None)"







section \<open>Notions of the specification and sample data\<close>

text \<open>
  What follows is not code of the repository: the notions in which the properties
  are stated, and concrete data on which they are tried.
\<close>

text \<open>Three snapshots of KPI-01: two for April 2025, one for May.\<close>

definition sampleSnapshots :: "WeeklySnapshot list" where
  "sampleSnapshots =
     [\<lparr>IndicatorID = ''KPI-01'', ws_Department = ''FINANCE'', IndicatorName = ''Revenue Group'',
       TargetValue = 100, PerformanceValue = 80, ws_Percentage = 80, SnapshotDate = 100,
       Month = 4, WeekNumber = 1, Year = 2025\<rparr>,
      \<lparr>IndicatorID = ''KPI-01'', ws_Department = ''FINANCE'', IndicatorName = ''Revenue Group'',
       TargetValue = 100, PerformanceValue = 90, ws_Percentage = 90, SnapshotDate = 200,
       Month = 4, WeekNumber = 2, Year = 2025\<rparr>,
      \<lparr>IndicatorID = ''KPI-01'', ws_Department = ''FINANCE'', IndicatorName = ''Revenue Group'',
       TargetValue = 100, PerformanceValue = 70, ws_Percentage = 70, SnapshotDate = 300,
       Month = 5, WeekNumber = 1, Year = 2025\<rparr>]"

text \<open>The column types in the order of the array of a month.\<close>

definition colTypes :: "string list" where
  "colTypes = [''target'', ''lagging'', ''percent'', ''perf'']"

text \<open>Some cell of the header row is a string that matches the month with the column type.\<close>

definition headerMatches :: "strings_lib \<Rightarrow> cell list \<Rightarrow> int \<Rightarrow> string \<Rightarrow> bool" where
  "headerMatches L row month colType =
     (\<exists>cell \<in> set row.
        case cell of
          CString headerText \<Rightarrow> matchMonthFromHeader L headerText = (month, colType)
        | _ \<Rightarrow> False)"

text \<open>\<open>result[month]\<close> in Go: the entry of the month, the zero array when it has none.\<close>

definition entryOf :: "(int \<rightharpoonup> int list) \<Rightarrow> int \<Rightarrow> int list" where
  "entryOf result month = (case result month of None \<Rightarrow> [0, 0, 0, 0] | Some e \<Rightarrow> e)"

text \<open>
  A sheet \<open>KPI\<close> whose header row has the target and the actual column of January
  only, and whose column C is read as empty.
\<close>

definition sampleSheet :: sheets_Service where
  "sampleSheet spreadsheetID rangeStr =
     (if rangeStr = ''KPI!1:1''
      then Inr [[CString ''Department'', CString ''No'', CString ''Leading Indicators'',
                 CString ''January Target'', CString ''January'']]
      else if rangeStr = ''KPI!C:C'' then Inr []
      else Inl ''unable to parse range'')"







text \<open>Two indicator responses, for the snapshot store.\<close>

definition responseA :: IndicatorResponse where
  "responseA =
     \<lparr>r_Code = ''KPI-01'', r_Department = ''FINANCE'', r_Name = ''Revenue Group'',
      r_Target = 100, r_Performance = 90, r_Percentage = 90, Status = ''green'',
      r_IsInverse = False, WowChange = 0, WowDirection = ''neutral'',
      ExpectedProgress = 50, Variance = 80, ScheduleStatus = ''ahead''\<rparr>"

definition responseB :: IndicatorResponse where
  "responseB =
     \<lparr>r_Code = ''KPI-03'', r_Department = ''SALES'', r_Name = ''Total Sales'',
      r_Target = 100, r_Performance = 120, r_Percentage = 120, Status = ''supergreen'',
      r_IsInverse = False, WowChange = 0, WowDirection = ''neutral'',
      ExpectedProgress = 50, Variance = 140, ScheduleStatus = ''ahead''\<rparr>"

text \<open>The number of calls at a location of a kind.\<close>

definition numCalls :: "(location \<Rightarrow> bool) \<Rightarrow> system \<Rightarrow> nat" where
  "numCalls P s = length (filter P (calls s))"





section \<open>Properties of the KPI computation engine\<close>

subsection \<open>Status of one metric\<close>

text \<open>
  C1. The status of a metric is a function of its percentage and its direction alone,
  and follows the two threshold tables: a normal metric is supergreen above 100, green
  above 85, yellow above 55 and red otherwise; an inverse metric is red from 100,
  yellow from 85, green from 55 and supergreen below. At the boundary, a normal 85 is
  yellow and 85.01 green; an inverse 85 is yellow and 84.99 green.
\<close>

theorem calculateStatus_tables:
  "calculateStatus percentage False =
     (if percentage > 100 then ''supergreen''
      else if percentage > 85 then ''green''
      else if percentage > 55 then ''yellow''
      else ''red'')
   \<and> calculateStatus percentage True =
     (if percentage \<ge> 100 then ''red''
      else if percentage \<ge> 85 then ''yellow''
      else if percentage \<ge> 55 then ''green''
      else ''supergreen'')
   \<and> calculateStatus 85 False = ''yellow''
   \<and> calculateStatus 85.01 False = ''green''
   \<and> calculateStatus 85 True = ''yellow''
   \<and> calculateStatus 84.99 True = ''green''"
  by (simp add: calculateStatus_def)

text \<open>The same tables read as bands: which percentages give which status.\<close>

lemma calculateStatus_normal_bands:
  "(calculateStatus p False = ''supergreen'') = (100 < p)"
  "(calculateStatus p False = ''green'') = (85 < p \<and> p \<le> 100)"
  "(calculateStatus p False = ''yellow'') = (55 < p \<and> p \<le> 85)"
  "(calculateStatus p False = ''red'') = (p \<le> 55)"
  by (auto simp: calculateStatus_def)

lemma calculateStatus_inverse_bands:
  "(calculateStatus p True = ''red'') = (100 \<le> p)"
  "(calculateStatus p True = ''yellow'') = (85 \<le> p \<and> p < 100)"
  "(calculateStatus p True = ''green'') = (55 \<le> p \<and> p < 85)"
  "(calculateStatus p True = ''supergreen'') = (p < 55)"
  by (auto simp: calculateStatus_def)

lemma calculateStatus_cases:
  "calculateStatus p b = ''supergreen'' \<or> calculateStatus p b = ''green''
   \<or> calculateStatus p b = ''yellow'' \<or> calculateStatus p b = ''red''"
  by (simp add: calculateStatus_def)

subsection \<open>The loop over the metrics\<close>

lemma indicatorLoop_responses:
  "fst (indicatorLoop prev d m y ks (rs, g, yl, r)) = rs @ map (indicatorResponse prev d m y) ks"
  by (induction ks arbitrary: rs g yl r) (simp_all add: Let_def)

lemma indicatorLoop_green:
  "fst (snd (indicatorLoop prev d m y ks (rs, g, yl, r))) =
     g + int (length (filter (\<lambda>i. Status i = ''green'' \<or> Status i = ''supergreen'')
                        (map (indicatorResponse prev d m y) ks)))"
  by (induction ks arbitrary: rs g yl r) (simp_all add: Let_def)

lemma indicatorLoop_yellow:
  "fst (snd (snd (indicatorLoop prev d m y ks (rs, g, yl, r)))) =
     yl + int (length (filter (\<lambda>i. Status i = ''yellow'') (map (indicatorResponse prev d m y) ks)))"
  by (induction ks arbitrary: rs g yl r) (simp_all add: Let_def)

lemma indicatorLoop_red:
  "snd (snd (snd (indicatorLoop prev d m y ks (rs, g, yl, r)))) =
     r + int (length (filter (\<lambda>i. Status i = ''red'') (map (indicatorResponse prev d m y) ks)))"
  by (induction ks arbitrary: rs g yl r) (simp_all add: Let_def)

lemma indicatorResponse_fields:
  "r_Percentage (indicatorResponse prev d m y k) = calculatedPercentage k"
  "Status (indicatorResponse prev d m y k) = calculateStatus (calculatedPercentage k) (kpi_IsInverse k)"
  by (simp_all add: indicatorResponse_def Let_def split: prod.splits)

text \<open>Every response has one of the four statuses, so the three counters cover the list.\<close>

lemma status_partition:
  assumes "\<forall>i \<in> set rs. Status i = ''supergreen'' \<or> Status i = ''green''
             \<or> Status i = ''yellow'' \<or> Status i = ''red''"
  shows "length (filter (\<lambda>i. Status i = ''green'' \<or> Status i = ''supergreen'') rs)
         + length (filter (\<lambda>i. Status i = ''yellow'') rs)
         + length (filter (\<lambda>i. Status i = ''red'') rs) = length rs"
  using assms by (induction rs) auto

subsection \<open>The percentage of one metric\<close>

text \<open>
  C2. The percentage of a metric is 0 when its target is 0, and otherwise
  actual / target * 100, capped at 999 from above and not bounded from below: a
  negative ratio gives a negative percentage. The responses of the dashboard carry
  this percentage, metric by metric.
\<close>

theorem calculatedPercentage_spec:
  "calculatedPercentage kpiData =
     (if Target kpiData = 0 then 0
      else min ((Performance kpiData / Target kpiData) * 100) 999)
   \<and> (Target kpiData \<noteq> 0 \<and> Performance kpiData / Target kpiData < 0
        \<longrightarrow> calculatedPercentage kpiData < 0)
   \<and> map r_Percentage
       (fst (indicatorLoop prevSnapshots currentDay month year kpiDataList ([], 0, 0, 0)))
     = map calculatedPercentage kpiDataList"
proof -
  have cap: "calculatedPercentage kpiData =
     (if Target kpiData = 0 then 0
      else min ((Performance kpiData / Target kpiData) * 100) 999)"
    by (simp add: calculatedPercentage_def Let_def min_def)
  have neg: "Target kpiData \<noteq> 0 \<and> Performance kpiData / Target kpiData < 0
        \<longrightarrow> calculatedPercentage kpiData < 0"
  proof
    assume a: "Target kpiData \<noteq> 0 \<and> Performance kpiData / Target kpiData < 0"
    then have "Performance kpiData / Target kpiData < 0"
      by simp
    then have "(Performance kpiData / Target kpiData) * 100 < 0"
      by (rule mult_neg_pos) simp
    with a show "calculatedPercentage kpiData < 0"
      by (simp add: cap min_def)
  qed
  have loop: "map r_Percentage
       (fst (indicatorLoop prevSnapshots currentDay month year kpiDataList ([], 0, 0, 0)))
     = map calculatedPercentage kpiDataList"
    by (simp add: indicatorLoop_responses indicatorResponse_fields comp_def)
  from cap neg loop show ?thesis by blast
qed

theorem calculatedPercentage_spec_witness:
  "calculatedPercentage \<lparr>IndicatorCode = ''KPI-07'', kpi_Department = ''PS'',
       kpi_Name = ''Non Billable Cost'', Target = 10, Performance = - 5,
       kpi_Percentage = 0, kpi_IsInverse = True\<rparr> = - 50
   \<and> calculatedPercentage \<lparr>IndicatorCode = ''KPI-01'', kpi_Department = ''FINANCE'',
       kpi_Name = ''Revenue Group'', Target = 2, Performance = 30,
       kpi_Percentage = 0, kpi_IsInverse = False\<rparr> = 999
   \<and> calculatedPercentage \<lparr>IndicatorCode = ''KPI-01'', kpi_Department = ''FINANCE'',
       kpi_Name = ''Revenue Group'', Target = 0, Performance = 30,
       kpi_Percentage = 0, kpi_IsInverse = False\<rparr> = 0"
  using calculatedPercentage_spec
          [of "\<lparr>IndicatorCode = ''KPI-07'', kpi_Department = ''PS'',
                kpi_Name = ''Non Billable Cost'', Target = 10, Performance = - 5,
                kpi_Percentage = 0, kpi_IsInverse = True\<rparr>" Map.empty 1 1 2025 "[]"]
        calculatedPercentage_spec
          [of "\<lparr>IndicatorCode = ''KPI-01'', kpi_Department = ''FINANCE'',
                kpi_Name = ''Revenue Group'', Target = 2, Performance = 30,
                kpi_Percentage = 0, kpi_IsInverse = False\<rparr>" Map.empty 1 1 2025 "[]"]
        calculatedPercentage_spec
          [of "\<lparr>IndicatorCode = ''KPI-01'', kpi_Department = ''FINANCE'',
                kpi_Name = ''Revenue Group'', Target = 0, Performance = 30,
                kpi_Percentage = 0, kpi_IsInverse = False\<rparr>" Map.empty 1 1 2025 "[]"]
  by simp

subsection \<open>The aggregate of one period\<close>

lemma indicatorLoop_result:
  "indicatorLoop prev d m y ks ([], 0, 0, 0) =
     (map (indicatorResponse prev d m y) ks,
      int (length (filter (\<lambda>i. Status i = ''green'' \<or> Status i = ''supergreen'')
                     (map (indicatorResponse prev d m y) ks))),
      int (length (filter (\<lambda>i. Status i = ''yellow'') (map (indicatorResponse prev d m y) ks))),
      int (length (filter (\<lambda>i. Status i = ''red'') (map (indicatorResponse prev d m y) ks))))"
proof -
  obtain rs g yl r where res: "indicatorLoop prev d m y ks ([], 0, 0, 0) = (rs, g, yl, r)"
    by (cases "indicatorLoop prev d m y ks ([], 0, 0, 0)") auto
  have "rs = map (indicatorResponse prev d m y) ks"
    using indicatorLoop_responses [of prev d m y ks "[]" 0 0 0] res by simp
  moreover have "g = int (length (filter (\<lambda>i. Status i = ''green'' \<or> Status i = ''supergreen'')
                     (map (indicatorResponse prev d m y) ks)))"
    using indicatorLoop_green [of prev d m y ks "[]" 0 0 0] res by simp
  moreover have "yl = int (length (filter (\<lambda>i. Status i = ''yellow'')
                     (map (indicatorResponse prev d m y) ks)))"
    using indicatorLoop_yellow [of prev d m y ks "[]" 0 0 0] res by simp
  moreover have "r = int (length (filter (\<lambda>i. Status i = ''red'')
                     (map (indicatorResponse prev d m y) ks)))"
    using indicatorLoop_red [of prev d m y ks "[]" 0 0 0] res by simp
  ultimately show ?thesis using res by simp
qed

text \<open>What \<open>GetDashboardData\<close> puts into the aggregate, in terms of the list it read.\<close>

lemma GetDashboardData_parts:
  assumes "GetDashboardData (Inr indicators) spreadsheetYear fetchKPIData weekly_snapshots
             allIndicators now currentDay month year = Inr response"
    and "rs = map (indicatorResponse (getPreviousWeekSnapshots weekly_snapshots month year)
                     currentDay month year)
                (if year = spreadsheetYear
                 then (case fetchKPIData indicators month of Inl err \<Rightarrow> [] | Inr l \<Rightarrow> l) else [])"
  shows "Indicators response = rs"
    and "OverallPerformance response =
       (let g = int (length (filter (\<lambda>i. Status i = ''green'' \<or> Status i = ''supergreen'') rs));
            yl = int (length (filter (\<lambda>i. Status i = ''yellow'') rs));
            r = int (length (filter (\<lambda>i. Status i = ''red'') rs));
            p = (if g + yl + r > 0 then (of_int g / of_int (g + yl + r)) * 100 else 0)
        in \<lparr>op_Percentage = p,
            op_Status = (if p > 85 then ''green'' else if p > 55 then ''yellow'' else ''red''),
            GreenCount = g, YellowCount = yl, RedCount = r\<rparr>)"
proof -
  let ?ks = "if year = spreadsheetYear
      then (case fetchKPIData indicators month of Inl err \<Rightarrow> [] | Inr l \<Rightarrow> l) else []"
  let ?prev = "getPreviousWeekSnapshots weekly_snapshots month year"
  let ?rs = "map (indicatorResponse ?prev currentDay month year) ?ks"
  let ?g = "int (length (filter (\<lambda>i. Status i = ''green'' \<or> Status i = ''supergreen'') ?rs))"
  let ?yl = "int (length (filter (\<lambda>i. Status i = ''yellow'') ?rs))"
  let ?r = "int (length (filter (\<lambda>i. Status i = ''red'') ?rs))"
  let ?p = "if ?g + ?yl + ?r > 0 then (of_int ?g / of_int (?g + ?yl + ?r)) * 100 else (0::real)"
  have loop: "indicatorLoop ?prev currentDay month year ?ks ([], 0, 0, 0) = (?rs, ?g, ?yl, ?r)"
    by (rule indicatorLoop_result)
  obtain wc wd pg where
    wt: "calculateWeeklyTrend weekly_snapshots allIndicators month year ?p = (wc, wd, pg)"
    using prod_cases3 by blast
  note resp = assms(1) [unfolded GetDashboardData_def sum.case Let_def loop prod.case wt,
                        THEN Inr_inject]
  note inds = arg_cong [where f = Indicators, OF resp,
                        unfolded DashboardResponse.select_convs]
  note ov = arg_cong [where f = OverallPerformance, OF resp,
                      unfolded DashboardResponse.select_convs]
  show "Indicators response = rs"
    unfolding assms(2) by (rule inds [symmetric])
  show "OverallPerformance response =
       (let g = int (length (filter (\<lambda>i. Status i = ''green'' \<or> Status i = ''supergreen'') rs));
            yl = int (length (filter (\<lambda>i. Status i = ''yellow'') rs));
            r = int (length (filter (\<lambda>i. Status i = ''red'') rs));
            p = (if g + yl + r > 0 then (of_int g / of_int (g + yl + r)) * 100 else 0)
        in \<lparr>op_Percentage = p,
            op_Status = (if p > 85 then ''green'' else if p > 55 then ''yellow'' else ''red''),
            GreenCount = g, YellowCount = yl, RedCount = r\<rparr>)"
    unfolding assms(2) Let_def by (rule ov [symmetric])
qed

text \<open>
  C9. In the aggregate of a period, the green counter counts the metrics whose status
  is green or supergreen; the overall percentage is the green counter over the number
  of classified metrics, times 100, and 0 when no metric is classified; the overall
  status reads this percentage against the normal thresholds only (green above 85,
  yellow above 55, red otherwise) and is never supergreen. Every metric of the response
  is classified.
\<close>

theorem overall_performance_spec:
  assumes "GetDashboardData findIndicators spreadsheetYear fetchKPIData weekly_snapshots
             allIndicators now currentDay month year = Inr response"
  shows "GreenCount (OverallPerformance response) =
       int (length (filter (\<lambda>i. Status i = ''green'' \<or> Status i = ''supergreen'')
                      (Indicators response)))
   \<and> YellowCount (OverallPerformance response) =
       int (length (filter (\<lambda>i. Status i = ''yellow'') (Indicators response)))
   \<and> RedCount (OverallPerformance response) =
       int (length (filter (\<lambda>i. Status i = ''red'') (Indicators response)))
   \<and> GreenCount (OverallPerformance response) + YellowCount (OverallPerformance response)
       + RedCount (OverallPerformance response) = int (length (Indicators response))
   \<and> op_Percentage (OverallPerformance response) =
       (if GreenCount (OverallPerformance response) + YellowCount (OverallPerformance response)
             + RedCount (OverallPerformance response) > 0
        then (of_int (GreenCount (OverallPerformance response))
              / of_int (GreenCount (OverallPerformance response)
                        + YellowCount (OverallPerformance response)
                        + RedCount (OverallPerformance response))) * 100
        else 0)
   \<and> op_Status (OverallPerformance response) =
       (if op_Percentage (OverallPerformance response) > 85 then ''green''
        else if op_Percentage (OverallPerformance response) > 55 then ''yellow''
        else ''red'')
   \<and> op_Status (OverallPerformance response) \<noteq> ''supergreen''"
proof -
  obtain indicators where fi: "findIndicators = Inr indicators"
    using assms by (cases findIndicators) (simp_all add: GetDashboardData_def)
  define rs where
    "rs = map (indicatorResponse (getPreviousWeekSnapshots weekly_snapshots month year)
                 currentDay month year)
            (if year = spreadsheetYear
             then (case fetchKPIData indicators month of Inl err \<Rightarrow> [] | Inr l \<Rightarrow> l) else [])"
  note parts = GetDashboardData_parts [OF assms [unfolded fi] rs_def]
  note inds = parts(1) and ov = parts(2)
  have sts: "\<forall>i \<in> set rs. \<exists>k. Status i = calculateStatus (calculatedPercentage k) (kpi_IsInverse k)"
  proof
    fix i
    assume "i \<in> set rs"
    then obtain k where "i = indicatorResponse
        (getPreviousWeekSnapshots weekly_snapshots month year) currentDay month year k"
      unfolding rs_def by (metis (no_types, lifting) in_set_conv_nth length_map nth_map)
    then show "\<exists>k. Status i = calculateStatus (calculatedPercentage k) (kpi_IsInverse k)"
      using indicatorResponse_fields(2) by blast
  qed
  have g: "GreenCount (OverallPerformance response) =
       int (length (filter (\<lambda>i. Status i = ''green'' \<or> Status i = ''supergreen'')
                      (Indicators response)))"
    by (simp add: ov inds Let_def)
  have yl: "YellowCount (OverallPerformance response) =
       int (length (filter (\<lambda>i. Status i = ''yellow'') (Indicators response)))"
    by (simp add: ov inds Let_def)
  have r: "RedCount (OverallPerformance response) =
       int (length (filter (\<lambda>i. Status i = ''red'') (Indicators response)))"
    by (simp add: ov inds Let_def)
  have pct: "op_Percentage (OverallPerformance response) =
       (if GreenCount (OverallPerformance response) + YellowCount (OverallPerformance response)
             + RedCount (OverallPerformance response) > 0
        then (of_int (GreenCount (OverallPerformance response))
              / of_int (GreenCount (OverallPerformance response)
                        + YellowCount (OverallPerformance response)
                        + RedCount (OverallPerformance response))) * 100
        else 0)"
    unfolding ov Let_def by (simp only: OverallPerformance.select_convs)
  have st: "op_Status (OverallPerformance response) =
       (if op_Percentage (OverallPerformance response) > 85 then ''green''
        else if op_Percentage (OverallPerformance response) > 55 then ''yellow''
        else ''red'')"
    unfolding ov Let_def by (simp only: OverallPerformance.select_convs)
  have "\<forall>i \<in> set (Indicators response). Status i = ''supergreen'' \<or> Status i = ''green''
             \<or> Status i = ''yellow'' \<or> Status i = ''red''"
    using sts calculateStatus_cases unfolding inds by metis
  from status_partition [OF this]
  have total: "GreenCount (OverallPerformance response) + YellowCount (OverallPerformance response)
       + RedCount (OverallPerformance response) = int (length (Indicators response))"
    unfolding g yl r by linarith
  have nsg: "op_Status (OverallPerformance response) \<noteq> ''supergreen''"
    by (simp add: st)
  from g yl r total pct st nsg show ?thesis by blast
qed

lemma GetDashboardData_returns:
  "findIndicators = Inr indicators \<Longrightarrow>
   \<exists>response. GetDashboardData findIndicators spreadsheetYear fetchKPIData weekly_snapshots
                allIndicators now currentDay month year = Inr response"
  by (simp add: GetDashboardData_def Let_def split: prod.splits)

text \<open>
  Three metrics on day 15 of April 2025: 90 of 100 (green), 120 of 100 (supergreen) and
  an inverse 12 of 10 (red). Two of three are green: 66.7 percent, overall yellow.
\<close>

theorem overall_performance_spec_witness:
  "\<exists>response.
     GetDashboardData (Inr []) 2025
       (\<lambda>indicators month. Inr
          [\<lparr>IndicatorCode = ''KPI-01'', kpi_Department = ''FINANCE'', kpi_Name = ''Revenue Group'',
            Target = 100, Performance = 90, kpi_Percentage = 0, kpi_IsInverse = False\<rparr>,
           \<lparr>IndicatorCode = ''KPI-03'', kpi_Department = ''SALES'', kpi_Name = ''Total Sales'',
            Target = 100, Performance = 120, kpi_Percentage = 0, kpi_IsInverse = False\<rparr>,
           \<lparr>IndicatorCode = ''KPI-10'', kpi_Department = ''HC'', kpi_Name = ''Turn Over'',
            Target = 10, Performance = 12, kpi_Percentage = 0, kpi_IsInverse = True\<rparr>])
       [] [] 0 15 4 2025 = Inr response
   \<and> map Status (Indicators response) = [''green'', ''supergreen'', ''red'']
   \<and> GreenCount (OverallPerformance response) = 2
   \<and> YellowCount (OverallPerformance response) = 0
   \<and> RedCount (OverallPerformance response) = 1
   \<and> op_Percentage (OverallPerformance response) = 200 / 3
   \<and> op_Status (OverallPerformance response) = ''yellow''"
proof -
  let ?fetch = "\<lambda>(indicators :: Indicator list) (month :: int). (Inr
          [\<lparr>IndicatorCode = ''KPI-01'', kpi_Department = ''FINANCE'', kpi_Name = ''Revenue Group'',
            Target = 100, Performance = 90, kpi_Percentage = 0, kpi_IsInverse = False\<rparr>,
           \<lparr>IndicatorCode = ''KPI-03'', kpi_Department = ''SALES'', kpi_Name = ''Total Sales'',
            Target = 100, Performance = 120, kpi_Percentage = 0, kpi_IsInverse = False\<rparr>,
           \<lparr>IndicatorCode = ''KPI-10'', kpi_Department = ''HC'', kpi_Name = ''Turn Over'',
            Target = 10, Performance = 12, kpi_Percentage = 0, kpi_IsInverse = True\<rparr>]
          :: error + KPIData list)"
  obtain response where
    eq: "GetDashboardData (Inr []) 2025 ?fetch [] [] 0 15 4 2025 = Inr response"
    using GetDashboardData_returns [of "Inr []" "[]"] by blast
  have sts: "map Status (Indicators response) = [''green'', ''supergreen'', ''red'']"
    unfolding GetDashboardData_parts(1) [OF eq refl]
    by (simp add: indicatorResponse_fields calculatedPercentage_def calculateStatus_def)
  then have flt:
    "length (filter (\<lambda>i. Status i = ''green'' \<or> Status i = ''supergreen'') (Indicators response)) = 2"
    "length (filter (\<lambda>i. Status i = ''yellow'') (Indicators response)) = 0"
    "length (filter (\<lambda>i. Status i = ''red'') (Indicators response)) = 1"
    by (auto simp: map_eq_Cons_conv)
  from overall_performance_spec [OF eq] flt sts eq show ?thesis
    by (intro exI [of _ response]) simp
qed

subsection \<open>Week over week\<close>

lemma mostRecent_lookup:
  "fst (mostRecent records (snapshots, seen)) code =
     (if seen code then snapshots code
      else case find (\<lambda>r. IndicatorID r = code) records of
             None \<Rightarrow> snapshots code
           | Some r \<Rightarrow> Some (ws_Percentage r))"
  by (induction records arbitrary: snapshots seen) (auto split: option.splits)

lemma getPreviousWeekSnapshots_lookup:
  "getPreviousWeekSnapshots weekly_snapshots month year code =
     map_option ws_Percentage
       (find (\<lambda>r. IndicatorID r = code) (snapshotsOfMonth weekly_snapshots month year))"
  by (simp add: getPreviousWeekSnapshots_def mostRecent_lookup split: option.splits)

text \<open>In a list sorted by a key, the first element with a property has the least key among them.\<close>

lemma find_sorted_least:
  "sorted (map key xs) \<Longrightarrow> find P xs = Some r \<Longrightarrow> x \<in> set xs \<Longrightarrow> P x \<Longrightarrow> key r \<le> (key x :: int)"
  by (induction xs) (auto split: if_splits)

lemma snapshotsOfMonth_set:
  "set (snapshotsOfMonth weekly_snapshots month year) =
     {r \<in> set weekly_snapshots. Month r = month \<and> Year r = year}"
  by (simp add: snapshotsOfMonth_def)

lemma snapshotsOfMonth_sorted:
  "sorted (map (\<lambda>r. - SnapshotDate r) (snapshotsOfMonth weekly_snapshots month year))"
  by (simp add: snapshotsOfMonth_def)

lemma getPreviousWeekSnapshots_None:
  "(getPreviousWeekSnapshots weekly_snapshots month year code = None) =
     (\<not> (\<exists>r \<in> set weekly_snapshots. IndicatorID r = code \<and> Month r = month \<and> Year r = year))"
  by (auto simp: getPreviousWeekSnapshots_lookup find_None_iff snapshotsOfMonth_set)

lemma getPreviousWeekSnapshots_Some:
  assumes "getPreviousWeekSnapshots weekly_snapshots month year code = Some p"
  shows "\<exists>r \<in> set weekly_snapshots.
           IndicatorID r = code \<and> Month r = month \<and> Year r = year \<and> ws_Percentage r = p
         \<and> (\<forall>r' \<in> set weekly_snapshots.
              IndicatorID r' = code \<and> Month r' = month \<and> Year r' = year
              \<longrightarrow> SnapshotDate r' \<le> SnapshotDate r)"
proof -
  from assms obtain r where
    f: "find (\<lambda>r. IndicatorID r = code) (snapshotsOfMonth weekly_snapshots month year) = Some r"
    and p: "ws_Percentage r = p"
    by (auto simp: getPreviousWeekSnapshots_lookup)
  from f have "r \<in> set (snapshotsOfMonth weekly_snapshots month year)" and c: "IndicatorID r = code"
    by (auto simp: find_Some_iff)
  then have r: "r \<in> set weekly_snapshots" "Month r = month" "Year r = year"
    by (simp_all add: snapshotsOfMonth_set)
  have "SnapshotDate r' \<le> SnapshotDate r"
    if "r' \<in> set weekly_snapshots" "IndicatorID r' = code" "Month r' = month" "Year r' = year"
    for r'
  proof -
    from that have "r' \<in> set (snapshotsOfMonth weekly_snapshots month year)"
      by (simp add: snapshotsOfMonth_set)
    from find_sorted_least [OF snapshotsOfMonth_sorted f this] that
    show ?thesis by simp
  qed
  with r c p show ?thesis by blast
qed

lemma calculateWoWChange_cases:
  "calculateWoWChange code current prev =
     (case prev code of
        None \<Rightarrow> (0, ''neutral'')
      | Some previous \<Rightarrow>
          if previous = 0 then (0, ''neutral'')
          else (current - previous,
                if current - previous > 0.5 then ''up''
                else if current - previous < - 0.5 then ''down''
                else ''neutral''))"
  by (simp add: calculateWoWChange_def Let_def split: option.splits)

lemma calculateWoWChange_dead_zone:
  "\<bar>fst (calculateWoWChange code current prev)\<bar> \<le> 0.5
   \<Longrightarrow> snd (calculateWoWChange code current prev) = ''neutral''"
  by (auto simp: calculateWoWChange_cases split: option.splits)

text \<open>
  C8. The previous percentage of a metric is that of its most recent snapshot of the
  month and year, if it has one. When there is none, or it is 0, the change is 0 and
  the direction neutral. Otherwise the change is the current percentage minus the
  previous one, and the direction is up exactly when the change is above 0.5, down
  exactly when it is below -0.5, and neutral whenever the change is within 0.5 of 0,
  whatever its sign.
\<close>

theorem week_over_week_spec:
  "((getPreviousWeekSnapshots weekly_snapshots month year code = None) =
      (\<not> (\<exists>r \<in> set weekly_snapshots. IndicatorID r = code \<and> Month r = month \<and> Year r = year)))
   \<and> (\<forall>previous. getPreviousWeekSnapshots weekly_snapshots month year code = Some previous \<longrightarrow>
        (\<exists>r \<in> set weekly_snapshots.
           IndicatorID r = code \<and> Month r = month \<and> Year r = year \<and> ws_Percentage r = previous
         \<and> (\<forall>r' \<in> set weekly_snapshots.
              IndicatorID r' = code \<and> Month r' = month \<and> Year r' = year
              \<longrightarrow> SnapshotDate r' \<le> SnapshotDate r)))
   \<and> calculateWoWChange code current (getPreviousWeekSnapshots weekly_snapshots month year) =
       (case getPreviousWeekSnapshots weekly_snapshots month year code of
          None \<Rightarrow> (0, ''neutral'')
        | Some previous \<Rightarrow>
            if previous = 0 then (0, ''neutral'')
            else (current - previous,
                  if current - previous > 0.5 then ''up''
                  else if current - previous < - 0.5 then ''down''
                  else ''neutral''))
   \<and> (\<bar>fst (calculateWoWChange code current
              (getPreviousWeekSnapshots weekly_snapshots month year))\<bar> \<le> 0.5
        \<longrightarrow> snd (calculateWoWChange code current
                 (getPreviousWeekSnapshots weekly_snapshots month year)) = ''neutral'')"
  using getPreviousWeekSnapshots_None [of weekly_snapshots month year code]
        getPreviousWeekSnapshots_Some [of weekly_snapshots month year code]
        calculateWoWChange_cases [of code current
          "getPreviousWeekSnapshots weekly_snapshots month year"]
        calculateWoWChange_dead_zone [of code current
          "getPreviousWeekSnapshots weekly_snapshots month year"]
  by blast

text \<open>
  A table with two snapshots of KPI-01 for April 2025, 80 percent at time 100 and 90
  percent at time 200, and one of another month. Against the later one, 90.4 is
  neutral, 91 is up and 89 is down; KPI-02 has no snapshot.
\<close>

lemma sampleSnapshots_previous:
  "getPreviousWeekSnapshots sampleSnapshots 4 2025 ''KPI-01'' = Some 90"
  "getPreviousWeekSnapshots sampleSnapshots 4 2025 ''KPI-02'' = None"
  by (simp_all add: getPreviousWeekSnapshots_lookup snapshotsOfMonth_def sampleSnapshots_def)

theorem week_over_week_spec_witness:
  "getPreviousWeekSnapshots sampleSnapshots 4 2025 ''KPI-01'' = Some 90
   \<and> calculateWoWChange ''KPI-01'' 90.4 (getPreviousWeekSnapshots sampleSnapshots 4 2025)
       = (0.4, ''neutral'')
   \<and> calculateWoWChange ''KPI-01'' 91 (getPreviousWeekSnapshots sampleSnapshots 4 2025)
       = (1, ''up'')
   \<and> calculateWoWChange ''KPI-01'' 89 (getPreviousWeekSnapshots sampleSnapshots 4 2025)
       = (- 1, ''down'')
   \<and> calculateWoWChange ''KPI-02'' 89 (getPreviousWeekSnapshots sampleSnapshots 4 2025)
       = (0, ''neutral'')"
  using week_over_week_spec [of sampleSnapshots 4 2025 "''KPI-01''" "90.4"]
        week_over_week_spec [of sampleSnapshots 4 2025 "''KPI-01''" 91]
        week_over_week_spec [of sampleSnapshots 4 2025 "''KPI-01''" 89]
        week_over_week_spec [of sampleSnapshots 4 2025 "''KPI-02''" 89]
  by (simp add: sampleSnapshots_previous)

subsection \<open>Schedule variance\<close>

lemma daysInMonth_bounds: "28 \<le> daysInMonth month year \<and> daysInMonth month year \<le> 31"
  by (simp add: daysInMonth_def daysIn_def Let_def)

lemma math_Round_int: "\<exists>n :: int. math_Round x = of_int n"
  unfolding math_Round_def by (metis of_int_minus)

lemma math_Round_near: "\<bar>math_Round x - x\<bar> \<le> 1 / 2"
proof (cases "x < 0")
  case True
  define n where "n = \<lfloor>- x + 1 / 2\<rfloor>"
  have "of_int n \<le> - x + 1 / 2" "- x + 1 / 2 < of_int n + 1"
    unfolding n_def by linarith+
  moreover have "math_Round x = - of_int n"
    unfolding math_Round_def n_def using True by (simp only: if_True)
  ultimately show ?thesis by linarith
next
  case False
  define n where "n = \<lfloor>x + 1 / 2\<rfloor>"
  have "of_int n \<le> x + 1 / 2" "x + 1 / 2 < of_int n + 1"
    unfolding n_def by linarith+
  moreover have "math_Round x = of_int n"
    unfolding math_Round_def n_def using False by (simp only: if_False)
  ultimately show ?thesis by linarith
qed

lemma calculateVariance_zero:
  "target = 0 \<or> target * (of_int currentDay / of_int (daysInMonth month year)) = 0
   \<Longrightarrow> calculateVariance currentDay target actual isInverse month year = (0, 0, ''on_schedule'')"
  by (auto simp: calculateVariance_def Let_def)

lemma calculateVariance_nonzero:
  assumes "target \<noteq> 0"
    and "expected = target * (of_int currentDay / of_int (daysInMonth month year))"
    and "expected \<noteq> 0"
    and "raw = (if isInverse then ((expected - actual) / expected) * 100
                else ((actual - expected) / expected) * 100)"
  shows "calculateVariance currentDay target actual isInverse month year =
           (math_Round (expected * 100) / 100,
            math_Round (raw * 10) / 10,
            if math_Round (raw * 10) / 10 > 5 then ''ahead''
            else if math_Round (raw * 10) / 10 < - 5 then ''behind''
            else ''on_schedule'')"
  using assms(1,3) unfolding assms(2,4) calculateVariance_def Let_def by simp

text \<open>
  C3. With expected = target * (currentDay / days of the month): when the target is 0
  or expected is 0, the variance is 0 and the schedule status on_schedule. Otherwise
  the variance is (actual - expected) / expected * 100 for a normal metric and
  (expected - actual) / expected * 100 for an inverse one, rounded to one decimal, the
  expected progress is rounded to two decimals, and the status is ahead exactly when
  the variance is above 5, behind exactly when it is below -5, and on_schedule
  otherwise. Rounding gives a whole number of tenths (of hundredths) at most half
  a unit away. Target 100, actual 90 on day 15 of a 30-day month give expected
  progress 50, variance 80 and ahead.
\<close>

theorem calculateVariance_spec:
  "(target = 0 \<or> target * (of_int currentDay / of_int (daysInMonth month year)) = 0
      \<longrightarrow> snd (calculateVariance currentDay target actual isInverse month year)
           = (0, ''on_schedule''))
   \<and> (\<forall>expected raw.
        target \<noteq> 0
        \<and> expected = target * (of_int currentDay / of_int (daysInMonth month year))
        \<and> expected \<noteq> 0
        \<and> raw = (if isInverse then ((expected - actual) / expected) * 100
                 else ((actual - expected) / expected) * 100)
      \<longrightarrow> (\<exists>expectedProgress variance scheduleStatus.
            calculateVariance currentDay target actual isInverse month year
              = (expectedProgress, variance, scheduleStatus)
          \<and> expectedProgress = math_Round (expected * 100) / 100
          \<and> (\<exists>n :: int. expectedProgress = of_int n / 100)
          \<and> \<bar>expectedProgress - expected\<bar> \<le> 1 / 200
          \<and> variance = math_Round (raw * 10) / 10
          \<and> (\<exists>n :: int. variance = of_int n / 10)
          \<and> \<bar>variance - raw\<bar> \<le> 1 / 20
          \<and> (scheduleStatus = ''ahead'') = (variance > 5)
          \<and> (scheduleStatus = ''behind'') = (variance < - 5)
          \<and> (scheduleStatus = ''on_schedule'') = (- 5 \<le> variance \<and> variance \<le> 5)))
   \<and> 28 \<le> daysInMonth month year \<and> daysInMonth month year \<le> 31
   \<and> daysInMonth 4 2025 = 30
   \<and> calculateVariance 15 100 90 False 4 2025 = (50, 80, ''ahead'')"
proof (intro conjI allI impI)
  assume "target = 0 \<or> target * (of_int currentDay / of_int (daysInMonth month year)) = 0"
  from calculateVariance_zero [OF this]
  show "snd (calculateVariance currentDay target actual isInverse month year)
          = (0, ''on_schedule'')"
    by simp
next
  fix expected raw
  assume h: "target \<noteq> 0
        \<and> expected = target * (of_int currentDay / of_int (daysInMonth month year))
        \<and> expected \<noteq> 0
        \<and> raw = (if isInverse then ((expected - actual) / expected) * 100
                 else ((actual - expected) / expected) * 100)"
  define e where "e = math_Round (expected * 100) / 100"
  define v where "v = math_Round (raw * 10) / 10"
  define st where "st =
    (if v > 5 then ''ahead'' else if v < - 5 then ''behind'' else ''on_schedule'')"
  from h have h1: "target \<noteq> 0"
    and h2: "expected = target * (of_int currentDay / of_int (daysInMonth month year))"
    and h3: "expected \<noteq> 0"
    and h4: "raw = (if isInverse then ((expected - actual) / expected) * 100
               else ((actual - expected) / expected) * 100)"
    by blast+
  have res: "calculateVariance currentDay target actual isInverse month year = (e, v, st)"
    unfolding e_def v_def st_def by (rule calculateVariance_nonzero [OF h1 h2 h3 h4])
  have e_int: "\<exists>n :: int. e = of_int n / 100"
    using math_Round_int [of "expected * 100"] by (auto simp: e_def)
  have v_int: "\<exists>n :: int. v = of_int n / 10"
    using math_Round_int [of "raw * 10"] by (auto simp: v_def)
  have e_near: "\<bar>e - expected\<bar> \<le> 1 / 200"
    using math_Round_near [of "expected * 100"] by (simp add: e_def field_simps)
  have v_near: "\<bar>v - raw\<bar> \<le> 1 / 20"
    using math_Round_near [of "raw * 10"] by (simp add: v_def field_simps)
  have st1: "(st = ''ahead'') = (v > 5)"
    and st2: "(st = ''behind'') = (v < - 5)"
    and st3: "(st = ''on_schedule'') = (- 5 \<le> v \<and> v \<le> 5)"
    by (auto simp: st_def)
  show "\<exists>expectedProgress variance scheduleStatus.
            calculateVariance currentDay target actual isInverse month year
              = (expectedProgress, variance, scheduleStatus)
          \<and> expectedProgress = math_Round (expected * 100) / 100
          \<and> (\<exists>n :: int. expectedProgress = of_int n / 100)
          \<and> \<bar>expectedProgress - expected\<bar> \<le> 1 / 200
          \<and> variance = math_Round (raw * 10) / 10
          \<and> (\<exists>n :: int. variance = of_int n / 10)
          \<and> \<bar>variance - raw\<bar> \<le> 1 / 20
          \<and> (scheduleStatus = ''ahead'') = (variance > 5)
          \<and> (scheduleStatus = ''behind'') = (variance < - 5)
          \<and> (scheduleStatus = ''on_schedule'') = (- 5 \<le> variance \<and> variance \<le> 5)"
    apply (rule exI [of _ e], rule exI [of _ v], rule exI [of _ st])
    apply (intro conjI)
             apply (rule res)
            apply (rule e_def)
           apply (rule e_int)
          apply (rule e_near)
         apply (rule v_def)
        apply (rule v_int)
       apply (rule v_near)
      apply (rule st1)
     apply (rule st2)
    apply (rule st3)
    done
next
  show "28 \<le> daysInMonth month year"
    using daysInMonth_bounds [of month year] by simp
next
  show "daysInMonth month year \<le> 31"
    using daysInMonth_bounds [of month year] by simp
next
  show days: "daysInMonth 4 2025 = 30"
    by (simp add: daysInMonth_def daysIn_def)
  show "calculateVariance 15 100 90 False 4 2025 = (50, 80, ''ahead'')"
    by (simp add: calculateVariance_def days math_Round_def Let_def)
qed

text \<open>
  An inverse metric with at most 10 allowed and 3 used on day 15 of April: expected
  use 5, so 40 percent ahead. A target of 0 is on schedule.
\<close>

theorem calculateVariance_spec_witness:
  "calculateVariance 15 10 3 True 4 2025 = (5, 40, ''ahead'')
   \<and> calculateVariance 15 0 3 True 4 2025 = (0, 0, ''on_schedule'')
   \<and> calculateVariance 15 100 90 False 4 2025 = (50, 80, ''ahead'')
   \<and> daysInMonth 2 2024 = 29"
proof -
  have a: "calculateVariance 15 10 3 True 4 2025 = (5, 40, ''ahead'')"
    by (simp add: calculateVariance_def daysInMonth_def daysIn_def math_Round_def Let_def)
  have b: "calculateVariance 15 0 3 True 4 2025 = (0, 0, ''on_schedule'')"
    by (simp add: calculateVariance_def)
  have c: "daysInMonth 2 2024 = 29"
    by (simp add: daysInMonth_def daysIn_def isLeap_def)
  from calculateVariance_spec [of 0 15 4 2025 3 True] a b c show ?thesis
    by simp
qed

section \<open>Properties of layout discovery\<close>

subsection \<open>What a header can match\<close>

lemma nameToMonth_set: "(name, m) \<in> set nameToMonth \<Longrightarrow> 1 \<le> m \<and> m \<le> 12"
  by (auto simp: nameToMonth_def)

lemma nameToMonth_range: "map_of nameToMonth name = Some m \<Longrightarrow> 1 \<le> m \<and> m \<le> 12"
  using nameToMonth_set map_of_SomeD by fast

lemma nameToMonth_find_range:
  "find P nameToMonth = Some (name, m) \<Longrightarrow> 1 \<le> m \<and> m \<le> 12"
proof -
  assume "find P nameToMonth = Some (name, m)"
  then have "(name, m) \<in> set nameToMonth"
    unfolding find_Some_iff by (metis nth_mem)
  then show ?thesis by (rule nameToMonth_set)
qed

lemma matchMonthFromHeader_cases:
  assumes "matchMonthFromHeader L header = (month, colType)"
  shows "(month = 0 \<and> colType = '''') \<or> (1 \<le> month \<and> month \<le> 12 \<and> colType \<in> set colTypes)"
proof -
  define lower where "lower = ToLower L (TrimSpace L header)"
  define pct where "pct =
     (if HasPrefix lower ''% '' \<and> HasSuffix lower '' performance''
      then map_of nameToMonth
             (TrimSpace L (TrimSuffix (TrimPrefix lower ''% '') '' performance''))
      else None)"
  define tgt where "tgt = find (\<lambda>(name, m). lower = name @ '' target'') nameToMonth"
  define lag where "lag = find (\<lambda>(name, m). lower = name @ '' lagging'') nameToMonth"
  define perf where "perf = map_of nameToMonth lower"
  have eq: "matchMonthFromHeader L header =
     (case pct of
        Some m \<Rightarrow> (m, ''percent'')
      | None \<Rightarrow>
         (case tgt of
            Some (name, m) \<Rightarrow> (m, ''target'')
          | None \<Rightarrow>
             (case lag of
                Some (name, m) \<Rightarrow> (m, ''lagging'')
              | None \<Rightarrow> (case perf of Some m \<Rightarrow> (m, ''perf'') | None \<Rightarrow> (0, '''')))))"
    unfolding matchMonthFromHeader_def Let_def pct_def tgt_def lag_def perf_def lower_def
    by (rule refl)
  have p: "1 \<le> m \<and> m \<le> 12" if "pct = Some m" for m
    using that nameToMonth_range unfolding pct_def by (auto split: if_splits)
  have t: "1 \<le> m \<and> m \<le> 12" if "tgt = Some (name, m)" for name m
    using that nameToMonth_find_range unfolding tgt_def by blast
  have l: "1 \<le> m \<and> m \<le> 12" if "lag = Some (name, m)" for name m
    using that nameToMonth_find_range unfolding lag_def by blast
  have f: "1 \<le> m \<and> m \<le> 12" if "perf = Some m" for m
    using that nameToMonth_range unfolding perf_def by blast
  show ?thesis
  proof (cases pct)
    case (Some m)
    with assms eq p [OF Some] show ?thesis by (simp add: colTypes_def)
  next
    case pn: None
    show ?thesis
    proof (cases tgt)
      case (Some nm)
      then obtain name m where "tgt = Some (name, m)" by (cases nm) auto
      with assms eq pn t [OF this] show ?thesis by (simp add: colTypes_def)
    next
      case tn: None
      show ?thesis
      proof (cases lag)
        case (Some nm)
        then obtain name m where "lag = Some (name, m)" by (cases nm) auto
        with assms eq pn tn l [OF this] show ?thesis by (simp add: colTypes_def)
      next
        case ln: None
        show ?thesis
        proof (cases perf)
          case (Some m)
          with assms eq pn tn ln f [OF Some] show ?thesis by (simp add: colTypes_def)
        next
          case None
          with assms eq pn tn ln show ?thesis by simp
        qed
      qed
    qed
  qed
qed

lemma headerMatches_D:
  assumes "headerMatches L row m t"
  shows "\<exists>h. CString h \<in> set row \<and> matchMonthFromHeader L h = (m, t)"
proof -
  from assms obtain cell where c: "cell \<in> set row"
    and m: "case cell of CString h \<Rightarrow> matchMonthFromHeader L h = (m, t) | _ \<Rightarrow> False"
    unfolding headerMatches_def by blast
  show ?thesis
  proof (cases cell)
    case (CString h)
    with c m show ?thesis by auto
  qed (use m in auto)
qed

lemma headerMatches_Cons:
  "headerMatches L (cell # cells) m t =
     ((case cell of CString h \<Rightarrow> matchMonthFromHeader L h = (m, t) | _ \<Rightarrow> False)
      \<or> headerMatches L cells m t)"
  by (simp add: headerMatches_def)

lemma headerMatches_Nil: "\<not> headerMatches L [] m t"
  by (simp add: headerMatches_def)

subsection \<open>The loop over the header row\<close>

text \<open>One round of the loop: a cell that matches no month is passed over.\<close>

lemma columnsLoop_skip:
  assumes "case cell of CString h \<Rightarrow> fst (matchMonthFromHeader L h) = 0 | _ \<Rightarrow> True"
  shows "columnsLoop L colIdx (cell # cells) result = columnsLoop L (colIdx + 1) cells result"
proof (cases cell)
  case (CString h)
  with assms show ?thesis
    by (cases "matchMonthFromHeader L h") simp
qed simp_all

text \<open>A cell that matches a month writes one position of the entry of the month.\<close>

lemma columnsLoop_match:
  assumes "cell = CString h" and "matchMonthFromHeader L h = (m0, t0)" and "m0 \<noteq> 0"
  shows "columnsLoop L colIdx (cell # cells) result =
           columnsLoop L (colIdx + 1) cells
             (result(m0 \<mapsto>
                (if t0 = ''target'' then (entryOf result m0)[0 := colIdx]
                 else if t0 = ''lagging'' then (entryOf result m0)[1 := colIdx]
                 else if t0 = ''percent'' then (entryOf result m0)[2 := colIdx]
                 else if t0 = ''perf'' then (entryOf result m0)[3 := colIdx]
                 else entryOf result m0)))"
  using assms by (simp add: Let_def entryOf_def)

lemma matched_months_skip:
  assumes "case cell of CString h \<Rightarrow> fst (matchMonthFromHeader L h) = 0 | _ \<Rightarrow> True"
  shows "{m. m \<noteq> 0 \<and> (\<exists>t. headerMatches L (cell # cells) m t)} =
         {m. m \<noteq> 0 \<and> (\<exists>t. headerMatches L cells m t)}"
proof (cases cell)
  case (CString h)
  with assms show ?thesis by (auto simp: headerMatches_Cons)
qed (simp_all add: headerMatches_Cons)

lemma matched_months_match:
  assumes "cell = CString h" and "matchMonthFromHeader L h = (m0, t0)" and "m0 \<noteq> 0"
  shows "{m. m \<noteq> 0 \<and> (\<exists>t. headerMatches L (cell # cells) m t)} =
         insert m0 {m. m \<noteq> 0 \<and> (\<exists>t. headerMatches L cells m t)}"
  using assms by (auto simp: headerMatches_Cons)

lemma columnsLoop_dom:
  "dom (columnsLoop L colIdx cells result) =
     dom result \<union> {m. m \<noteq> 0 \<and> (\<exists>t. headerMatches L cells m t)}"
proof (induction cells arbitrary: colIdx result)
  case Nil
  then show ?case by (simp add: headerMatches_Nil)
next
  case (Cons cell cells)
  show ?case
  proof (cases "case cell of CString h \<Rightarrow> fst (matchMonthFromHeader L h) = 0 | _ \<Rightarrow> True")
    case True
    show ?thesis
      unfolding columnsLoop_skip [OF True] matched_months_skip [OF True] by (rule Cons.IH)
  next
    case False
    then obtain h m0 t0 where c: "cell = CString h"
      and mt: "matchMonthFromHeader L h = (m0, t0)" and m0: "m0 \<noteq> 0"
      by (cases cell; cases "matchMonthFromHeader L (case cell of CString h \<Rightarrow> h | _ \<Rightarrow> [])") auto
    show ?thesis
      unfolding columnsLoop_match [OF c mt m0] matched_months_match [OF c mt m0] Cons.IH
      by simp
  qed
qed

lemma columnsLoop_length:
  "(\<forall>m e. result m = Some e \<longrightarrow> length e = 4)
   \<Longrightarrow> columnsLoop L colIdx cells result month = Some entry \<Longrightarrow> length entry = 4"
proof (induction cells arbitrary: colIdx result)
  case Nil
  then show ?case by simp
next
  case (Cons cell cells)
  show ?case
  proof (cases "case cell of CString h \<Rightarrow> fst (matchMonthFromHeader L h) = 0 | _ \<Rightarrow> True")
    case True
    from Cons.prems(2) show ?thesis
      unfolding columnsLoop_skip [OF True] by (rule Cons.IH [OF Cons.prems(1)])
  next
    case False
    then obtain h m0 t0 where c: "cell = CString h"
      and mt: "matchMonthFromHeader L h = (m0, t0)" and m0: "m0 \<noteq> 0"
      by (cases cell; cases "matchMonthFromHeader L (case cell of CString h \<Rightarrow> h | _ \<Rightarrow> [])") auto
    define entry' where "entry' =
      (if t0 = ''target'' then (entryOf result m0)[0 := colIdx]
       else if t0 = ''lagging'' then (entryOf result m0)[1 := colIdx]
       else if t0 = ''percent'' then (entryOf result m0)[2 := colIdx]
       else if t0 = ''perf'' then (entryOf result m0)[3 := colIdx]
       else entryOf result m0)"
    have step: "columnsLoop L colIdx (cell # cells) result =
                columnsLoop L (colIdx + 1) cells (result(m0 \<mapsto> entry'))"
      unfolding entry'_def by (rule columnsLoop_match [OF c mt m0])
    have "length (entryOf result m0) = 4"
      using Cons.prems(1) by (auto simp: entryOf_def split: option.splits)
    then have len: "length entry' = 4"
      unfolding entry'_def by simp
    have inv: "\<forall>m e. (result(m0 \<mapsto> entry')) m = Some e \<longrightarrow> length e = 4"
      using Cons.prems(1) len by auto
    from Cons.prems(2)
    have "columnsLoop L (colIdx + 1) cells (result(m0 \<mapsto> entry')) month = Some entry"
      unfolding step .
    from Cons.IH [OF inv this] show ?thesis .
  qed
qed

text \<open>Writing the position of one column type leaves the positions of the others.\<close>

lemma entry_update_keep:
  assumes "k < 4" and "t0 \<noteq> colTypes ! k"
  shows "(if t0 = ''target'' then e[0 := c]
          else if t0 = ''lagging'' then e[1 := c]
          else if t0 = ''percent'' then e[2 := c]
          else if t0 = ''perf'' then e[3 := c]
          else e) ! k = (e :: int list) ! k"
proof -
  from assms(1) consider "k = 0" | "k = 1" | "k = 2" | "k = 3"
    by linarith
  then show ?thesis
  proof cases
    case 1
    with assms(2) have "t0 \<noteq> ''target''" by (simp add: colTypes_def)
    with 1 show ?thesis by simp
  next
    case 2
    with assms(2) have "t0 \<noteq> ''lagging''" by (simp add: colTypes_def)
    with 2 show ?thesis by simp
  next
    case 3
    with assms(2) have "t0 \<noteq> ''percent''" by (simp add: colTypes_def)
    with 3 show ?thesis by simp
  next
    case 4
    with assms(2) have "t0 \<noteq> ''perf''" by (simp add: colTypes_def)
    with 4 show ?thesis by simp
  qed
qed

lemma columnsLoop_unmatched:
  "k < 4 \<Longrightarrow> \<not> headerMatches L cells month (colTypes ! k)
   \<Longrightarrow> entryOf (columnsLoop L colIdx cells result) month ! k = entryOf result month ! k"
proof (induction cells arbitrary: colIdx result)
  case Nil
  then show ?case by simp
next
  case (Cons cell cells)
  from Cons.prems have rest: "\<not> headerMatches L cells month (colTypes ! k)"
    by (simp add: headerMatches_Cons)
  show ?case
  proof (cases "case cell of CString h \<Rightarrow> fst (matchMonthFromHeader L h) = 0 | _ \<Rightarrow> True")
    case True
    show ?thesis
      unfolding columnsLoop_skip [OF True] by (rule Cons.IH [OF Cons.prems(1) rest])
  next
    case False
    then obtain h m0 t0 where c: "cell = CString h"
      and mt: "matchMonthFromHeader L h = (m0, t0)" and m0: "m0 \<noteq> 0"
      by (cases cell; cases "matchMonthFromHeader L (case cell of CString h \<Rightarrow> h | _ \<Rightarrow> [])") auto
    from Cons.prems(2) c mt have head: "\<not> (m0 = month \<and> t0 = colTypes ! k)"
      by (auto simp: headerMatches_Cons)
    define entry' where "entry' =
      (if t0 = ''target'' then (entryOf result m0)[0 := colIdx]
       else if t0 = ''lagging'' then (entryOf result m0)[1 := colIdx]
       else if t0 = ''percent'' then (entryOf result m0)[2 := colIdx]
       else if t0 = ''perf'' then (entryOf result m0)[3 := colIdx]
       else entryOf result m0)"
    have step: "columnsLoop L colIdx (cell # cells) result =
                columnsLoop L (colIdx + 1) cells (result(m0 \<mapsto> entry'))"
      unfolding entry'_def by (rule columnsLoop_match [OF c mt m0])
    have keep: "entry' ! k = entryOf result month ! k" if "m0 = month"
    proof -
      from head that have "t0 \<noteq> colTypes ! k" by blast
      from entry_update_keep [OF Cons.prems(1) this] that show ?thesis
        unfolding entry'_def by blast
    qed
    have "entryOf (result(m0 \<mapsto> entry')) month ! k = entryOf result month ! k"
    proof (cases "m0 = month")
      case True
      then have "entryOf (result(m0 \<mapsto> entry')) month = entry'"
        by (simp add: entryOf_def)
      with keep [OF True] show ?thesis by (simp only:)
    next
      case False
      then show ?thesis by (simp add: entryOf_def)
    qed
    with Cons.IH [OF Cons.prems(1) rest, of "colIdx + 1" "result(m0 \<mapsto> entry')"]
    show ?thesis
      unfolding step by (simp only:)
  qed
qed

lemma discoverColumns_Inr:
  assumes "discoverColumns L srv spreadsheetID sheetName = Inr result"
  shows "\<exists>row rest. srv spreadsheetID (formatSheetName sheetName @ ''!1:1'') = Inr (row # rest)
           \<and> row \<noteq> [] \<and> result = columnsLoop L 0 row Map.empty"
  using assms unfolding discoverColumns_def Let_def
  by (auto split: sum.splits list.splits if_splits)

text \<open>
  C10. Let column discovery succeed on a header row. A month is a key of the layout
  exactly when some header of the row matches one of its four patterns. The entry of
  such a month has all four positions, and a position whose pattern no header matched
  is 0, the index of column A, not a mark of absence.
\<close>

theorem discoverColumns_partial_month:
  assumes "discoverColumns L srv spreadsheetID sheetName = Inr result"
    and "srv spreadsheetID (formatSheetName sheetName @ ''!1:1'') = Inr (row # rest)"
  shows "((month \<in> dom result) = (\<exists>colType \<in> set colTypes. headerMatches L row month colType))
       \<and> (\<forall>entry. result month = Some entry \<longrightarrow>
            length entry = 4
          \<and> (\<forall>k < 4. \<not> headerMatches L row month (colTypes ! k) \<longrightarrow> entry ! k = 0))"
proof (rule conjI)
  from discoverColumns_Inr [OF assms(1)] assms(2)
  have res: "result = columnsLoop L 0 row Map.empty"
    by auto
  have "(\<exists>t. month \<noteq> 0 \<and> headerMatches L row month t)
        = (\<exists>colType \<in> set colTypes. headerMatches L row month colType)"
  proof
    assume "\<exists>t. month \<noteq> 0 \<and> headerMatches L row month t"
    then obtain t where m: "month \<noteq> 0" and "headerMatches L row month t"
      by blast
    then obtain h where "matchMonthFromHeader L h = (month, t)"
      using headerMatches_D by blast
    from matchMonthFromHeader_cases [OF this] m have "t \<in> set colTypes"
      by simp
    with \<open>headerMatches L row month t\<close>
    show "\<exists>colType \<in> set colTypes. headerMatches L row month colType"
      by blast
  next
    assume "\<exists>colType \<in> set colTypes. headerMatches L row month colType"
    then obtain t where t: "t \<in> set colTypes" and hm: "headerMatches L row month t"
      by blast
    then obtain h where "matchMonthFromHeader L h = (month, t)"
      using headerMatches_D by blast
    from matchMonthFromHeader_cases [OF this] t have "month \<noteq> 0"
      by (auto simp: colTypes_def)
    with hm show "\<exists>t. month \<noteq> 0 \<and> headerMatches L row month t"
      by blast
  qed
  then show "(month \<in> dom result) = (\<exists>colType \<in> set colTypes. headerMatches L row month colType)"
    unfolding res columnsLoop_dom by simp
  show "\<forall>entry. result month = Some entry \<longrightarrow>
           length entry = 4
         \<and> (\<forall>k < 4. \<not> headerMatches L row month (colTypes ! k) \<longrightarrow> entry ! k = 0)"
  proof (intro allI impI conjI)
    fix entry
    assume e: "result month = Some entry"
    then show "length entry = 4"
      unfolding res by (rule columnsLoop_length [rotated]) simp
    fix k :: nat
    assume k: "k < 4" and nm: "\<not> headerMatches L row month (colTypes ! k)"
    have "k = 0 \<or> k = 1 \<or> k = 2 \<or> k = 3"
      using k by linarith
    then have "entryOf Map.empty month ! k = 0"
      by (auto simp: entryOf_def)
    with columnsLoop_unmatched [OF k nm, of 0 Map.empty] e
    show "entry ! k = 0"
      by (simp add: res entryOf_def)
  qed
qed

text \<open>
  The sample sheet has the target of January in column D (index 3) and the actual in
  column E (index 4). January is a key; its lagging and percent positions are 0.
\<close>

lemma sampleSheet_header:
  "matchMonthFromHeader asciiStrings ''Department'' = (0, '''')"
  "matchMonthFromHeader asciiStrings ''No'' = (0, '''')"
  "matchMonthFromHeader asciiStrings ''Leading Indicators'' = (0, '''')"
  "matchMonthFromHeader asciiStrings ''January Target'' = (1, ''target'')"
  "matchMonthFromHeader asciiStrings ''January'' = (1, ''perf'')"
  by (simp_all add: matchMonthFromHeader_def asciiStrings_def asciiToLower_def
        asciiTrimSpace_def asciiSpace_def HasPrefix_def HasSuffix_def nameToMonth_def)

lemma sampleSheet_columns:
  "discoverColumns asciiStrings sampleSheet ''id'' ''KPI'' = Inr [1 \<mapsto> [3, 0, 0, 4]]"
  by (simp add: discoverColumns_def sampleSheet_def formatSheetName_def sampleSheet_header)

theorem discoverColumns_partial_month_witness:
  "discoverColumns asciiStrings sampleSheet ''id'' ''KPI'' = Inr [1 \<mapsto> [3, 0, 0, 4]]
   \<and> 1 \<in> dom [1 \<mapsto> [3, 0, 0, 4 :: int]]
   \<and> headerMatches asciiStrings
       [CString ''Department'', CString ''No'', CString ''Leading Indicators'',
        CString ''January Target'', CString ''January''] 1 ''target''
   \<and> \<not> headerMatches asciiStrings
       [CString ''Department'', CString ''No'', CString ''Leading Indicators'',
        CString ''January Target'', CString ''January''] 1 ''lagging''
   \<and> [3, 0, 0, 4 :: int] ! 1 = 0"
proof -
  have r: "sampleSheet ''id'' (formatSheetName ''KPI'' @ ''!1:1'') =
           Inr ([CString ''Department'', CString ''No'', CString ''Leading Indicators'',
                 CString ''January Target'', CString ''January''] # [])"
    by (simp add: sampleSheet_def formatSheetName_def)
  have m: "headerMatches asciiStrings
       [CString ''Department'', CString ''No'', CString ''Leading Indicators'',
        CString ''January Target'', CString ''January''] 1 ''target''"
    and n: "\<not> headerMatches asciiStrings
       [CString ''Department'', CString ''No'', CString ''Leading Indicators'',
        CString ''January Target'', CString ''January''] 1 ''lagging''"
    by (simp_all add: headerMatches_def sampleSheet_header)
  from discoverColumns_partial_month [OF sampleSheet_columns r, of 1] m n sampleSheet_columns
  show ?thesis by (simp add: colTypes_def)
qed

subsection \<open>Empty reads\<close>

lemma discoverColumns_empty_header:
  assumes "srv spreadsheetID (formatSheetName sheetName @ ''!1:1'') = Inr vals"
    and "vals = [] \<or> hd vals = []"
  shows "discoverColumns L srv spreadsheetID sheetName = Inl ''header row is empty''"
  using assms by (cases "vals") (auto simp: discoverColumns_def)

lemma discoverRows_empty_column:
  assumes "srv spreadsheetID (formatSheetName sheetName @ ''!C:C'') = Inr []"
  shows "discoverRows L srv spreadsheetID sheetName = Inr Map.empty"
  using assms by (simp add: discoverRows_def)

text \<open>
  C4, as the code has it. When the read of the header row returns no cells (no row, or
  an empty first row), layout discovery fails, and the error is handed on. When the
  header row is found and the read of the label column returns no rows at all,
  discovery succeeds: it returns a layout whose label map is empty.
\<close>

theorem DiscoverLayout_empty_reads:
  "(\<forall>vals. srv spreadsheetID (formatSheetName sheetName @ ''!1:1'') = Inr vals
         \<and> (vals = [] \<or> hd vals = [])
      \<longrightarrow> DiscoverLayout L srv now spreadsheetID sheetName
           = Inl ''column discovery failed: header row is empty'')
   \<and> (\<forall>monthCols. discoverColumns L srv spreadsheetID sheetName = Inr monthCols
         \<and> srv spreadsheetID (formatSheetName sheetName @ ''!C:C'') = Inr []
      \<longrightarrow> DiscoverLayout L srv now spreadsheetID sheetName
           = Inr \<lparr>MonthColumns = monthCols, KPIRows = Map.empty, LastRefresh = now\<rparr>)"
proof (intro conjI allI impI)
  fix vals
  assume "srv spreadsheetID (formatSheetName sheetName @ ''!1:1'') = Inr vals
          \<and> (vals = [] \<or> hd vals = [])"
  then have "discoverColumns L srv spreadsheetID sheetName = Inl ''header row is empty''"
    using discoverColumns_empty_header by blast
  then show "DiscoverLayout L srv now spreadsheetID sheetName
               = Inl ''column discovery failed: header row is empty''"
    by (simp add: DiscoverLayout_def)
next
  fix monthCols
  assume a: "discoverColumns L srv spreadsheetID sheetName = Inr monthCols
             \<and> srv spreadsheetID (formatSheetName sheetName @ ''!C:C'') = Inr []"
  then have "discoverRows L srv spreadsheetID sheetName = Inr Map.empty"
    using discoverRows_empty_column by blast
  with a show "DiscoverLayout L srv now spreadsheetID sheetName
                 = Inr \<lparr>MonthColumns = monthCols, KPIRows = Map.empty, LastRefresh = now\<rparr>"
    by (simp add: DiscoverLayout_def)
qed

text \<open>
  On the sample sheet the read of column C returns no rows, and discovery returns a
  layout with no label. On a sheet that returns nothing at all it fails.
\<close>

theorem DiscoverLayout_empty_reads_witness:
  "DiscoverLayout asciiStrings sampleSheet 7 ''id'' ''KPI''
     = Inr \<lparr>MonthColumns = [1 \<mapsto> [3, 0, 0, 4]], KPIRows = Map.empty, LastRefresh = 7\<rparr>
   \<and> DiscoverLayout asciiStrings (\<lambda>spreadsheetID rangeStr. Inr []) 7 ''id'' ''KPI''
     = Inl ''column discovery failed: header row is empty''"
proof -
  have c: "sampleSheet ''id'' (formatSheetName ''KPI'' @ ''!C:C'') = Inr []"
    by (simp add: sampleSheet_def formatSheetName_def)
  from DiscoverLayout_empty_reads [of sampleSheet "''id''" "''KPI''" asciiStrings 7]
       DiscoverLayout_empty_reads [of "\<lambda>spreadsheetID rangeStr. Inr []" "''id''" "''KPI''"
                                      asciiStrings 7]
       sampleSheet_columns c
  show ?thesis by simp
qed

text \<open>
  The claim as stated fails on the sample sheet: the read of the label column returns
  no rows, and discovery returns a layout, not an error.
\<close>

theorem DiscoverLayout_empty_labels_counterexample:
  "sampleSheet ''id'' ''KPI!C:C'' = Inr []
   \<and> DiscoverLayout asciiStrings sampleSheet 7 ''id'' ''KPI''
     = Inr \<lparr>MonthColumns = [1 \<mapsto> [3, 0, 0, 4]], KPIRows = Map.empty, LastRefresh = 7\<rparr>"
  by (simp add: DiscoverLayout_def sampleSheet_columns discoverRows_def sampleSheet_def
        formatSheetName_def)

section \<open>Properties of the row of a metric\<close>








lemma batchLoop_ranges:
  "fst (batchLoop L lay sheetName lastColLetter indicators (ranges, activeIndicators)) =
     ranges
     @ map (\<lambda>i. formatSheetName sheetName @ ''!A'' @ Itoa (fst (getIndicatorRow L lay i))
                  @ '':'' @ lastColLetter @ Itoa (fst (getIndicatorRow L lay i)))
         (filter (\<lambda>i. IsActive i \<and> snd (getIndicatorRow L lay i)) indicators)"
  by (induction indicators arbitrary: ranges activeIndicators)
     (auto simp: Let_def split: prod.splits)




section \<open>Properties of the snapshot store\<close>

lemma createAll_ok:
  "(\<forall>i < length snapshots. createError (n + i) = None)
   \<Longrightarrow> createAll createError n snapshots weekly_snapshots = (None, weekly_snapshots @ snapshots)"
proof (induction snapshots arbitrary: n weekly_snapshots)
  case Nil
  then show ?case by simp
next
  case (Cons snapshot snapshots)
  from Cons.prems have first: "createError n = None"
    by force
  from Cons.prems have "\<forall>i < length snapshots. createError (Suc n + i) = None"
    by force
  from Cons.IH [OF this] first show ?case
    by simp
qed

lemma rowsOfWeek_append:
  "rowsOfWeek (xs @ ys) month year weekNumber =
     rowsOfWeek xs month year weekNumber @ rowsOfWeek ys month year weekNumber"
  by (simp add: rowsOfWeek_def)

lemma rowsOfWeek_snapshotOf:
  "rowsOfWeek (map (snapshotOf now month year weekNumber) indicators) month' year' weekNumber' =
     (if month' = month \<and> year' = year \<and> weekNumber' = weekNumber
      then map (snapshotOf now month year weekNumber) indicators else [])"
  by (induction indicators) (auto simp: rowsOfWeek_def snapshotOf_def)

lemma rowsOfWeek_deleted:
  "rowsOfWeek
     (filter (\<lambda>row. \<not> (Month row = month \<and> Year row = year \<and> WeekNumber row = weekNumber))
        weekly_snapshots) month' year' weekNumber' =
     (if month' = month \<and> year' = year \<and> weekNumber' = weekNumber then []
      else rowsOfWeek weekly_snapshots month' year' weekNumber')"
  by (induction weekly_snapshots) (auto simp: rowsOfWeek_def)

text \<open>The inserts stop at the first failure: a call without error has written every row.\<close>

lemma createAll_None:
  "createAll createError n snapshots weekly_snapshots = (None, table')
   \<Longrightarrow> table' = weekly_snapshots @ snapshots"
proof (induction snapshots arbitrary: n weekly_snapshots)
  case Nil
  then show ?case by simp
next
  case (Cons snapshot snapshots)
  from Cons.prems have first: "createError n = None"
    by (cases "createError n") auto
  with Cons.prems
  have "createAll createError (Suc n) snapshots (weekly_snapshots @ [snapshot]) = (None, table')"
    by simp
  from Cons.IH [OF this] show ?case by simp
qed

lemma createAll_prefix:
  "createAll createError n snapshots weekly_snapshots = (err, table')
   \<Longrightarrow> \<exists>k \<le> length snapshots. table' = weekly_snapshots @ take k snapshots"
proof (induction snapshots arbitrary: n weekly_snapshots)
  case Nil
  then show ?case by simp
next
  case (Cons snapshot snapshots)
  show ?case
  proof (cases "createError n")
    case None
    with Cons.prems
    have "createAll createError (Suc n) snapshots (weekly_snapshots @ [snapshot]) = (err, table')"
      by simp
    from Cons.IH [OF this] obtain k where
      "k \<le> length snapshots" "table' = (weekly_snapshots @ [snapshot]) @ take k snapshots"
      by blast
    then have "Suc k \<le> length (snapshot # snapshots)
               \<and> table' = weekly_snapshots @ take (Suc k) (snapshot # snapshots)"
      by simp
    then show ?thesis by blast
  next
    case (Some e)
    with Cons.prems have "table' = weekly_snapshots @ take 0 (snapshot # snapshots)"
      by simp
    then show ?thesis by blast
  qed
qed

lemma SaveSnapshot_ok:
  assumes "\<forall>i < length indicators. createError i = None"
  shows "SaveSnapshot None createError now weekly_snapshots indicators month year weekNumber =
     (None,
      filter (\<lambda>row. \<not> (Month row = month \<and> Year row = year \<and> WeekNumber row = weekNumber))
        weekly_snapshots
      @ map (snapshotOf now month year weekNumber) indicators)"
  using assms by (simp add: SaveSnapshot_def createAll_ok)

text \<open>
  After a delete that succeeded, the week holds rows of this call only, whatever
  the inserts met: the rows of the first indicators, up to the first failed insert.
\<close>

lemma SaveSnapshot_deleted:
  assumes "SaveSnapshot None createError now weekly_snapshots indicators month year weekNumber
             = (err, table')"
  shows "\<exists>k \<le> length indicators.
           rowsOfWeek table' month year weekNumber
             = map (snapshotOf now month year weekNumber) (take k indicators)"
proof -
  from assms have "createAll createError 0
      (map (snapshotOf now month year weekNumber) indicators)
      (filter (\<lambda>row. \<not> (Month row = month \<and> Year row = year \<and> WeekNumber row = weekNumber))
         weekly_snapshots) = (err, table')"
    by (simp add: SaveSnapshot_def)
  from createAll_prefix [OF this] obtain k where
    "k \<le> length (map (snapshotOf now month year weekNumber) indicators)"
    and t: "table' =
      filter (\<lambda>row. \<not> (Month row = month \<and> Year row = year \<and> WeekNumber row = weekNumber))
        weekly_snapshots
      @ take k (map (snapshotOf now month year weekNumber) indicators)"
    by blast
  then have k: "k \<le> length indicators"
    by simp
  have "rowsOfWeek table' month year weekNumber
          = map (snapshotOf now month year weekNumber) (take k indicators)"
    unfolding t take_map rowsOfWeek_append rowsOfWeek_snapshotOf rowsOfWeek_deleted by simp
  with k show ?thesis by blast
qed

text \<open>
  C6, as the code has it. Let \<open>SaveSnapshot\<close> be called with A and then with B for the
  same month, year and week, whatever the first call met. If in the second call the
  delete succeeds and the call returns no error, the rows of that week are then
  exactly the rows built from B, one per indicator of B in its order, all with the
  date of the second call: none of the first call is left. The rows of other weeks
  are as the first call left them.
\<close>

theorem SaveSnapshot_replaces:
  assumes "table1 = snd (SaveSnapshot deleteError1 createError1 now1 weekly_snapshots A
                         month year weekNumber)"
    and "SaveSnapshot None createError2 now2 table1 B month year weekNumber = (None, table2)"
  shows "rowsOfWeek table2 month year weekNumber = map (snapshotOf now2 month year weekNumber) B
     \<and> length (rowsOfWeek table2 month year weekNumber) = length B
     \<and> map IndicatorID (rowsOfWeek table2 month year weekNumber) = map r_Code B
     \<and> (\<forall>row \<in> set (rowsOfWeek table2 month year weekNumber). SnapshotDate row = now2)
     \<and> (\<forall>month' year' weekNumber'.
          \<not> (month' = month \<and> year' = year \<and> weekNumber' = weekNumber)
          \<longrightarrow> rowsOfWeek table2 month' year' weekNumber'
               = rowsOfWeek table1 month' year' weekNumber')"
proof -
  from assms(2) have "createAll createError2 0
      (map (snapshotOf now2 month year weekNumber) B)
      (filter (\<lambda>row. \<not> (Month row = month \<and> Year row = year \<and> WeekNumber row = weekNumber))
         table1) = (None, table2)"
    by (simp add: SaveSnapshot_def)
  from createAll_None [OF this] have t2: "table2 =
     filter (\<lambda>row. \<not> (Month row = month \<and> Year row = year \<and> WeekNumber row = weekNumber)) table1
     @ map (snapshotOf now2 month year weekNumber) B" .
  have rows: "rowsOfWeek table2 month year weekNumber
                = map (snapshotOf now2 month year weekNumber) B"
    unfolding t2 rowsOfWeek_append rowsOfWeek_snapshotOf rowsOfWeek_deleted by simp
  have len: "length (rowsOfWeek table2 month year weekNumber) = length B"
    unfolding rows by simp
  have ids: "map IndicatorID (rowsOfWeek table2 month year weekNumber) = map r_Code B"
    unfolding rows by (simp add: snapshotOf_def)
  have dates: "\<forall>row \<in> set (rowsOfWeek table2 month year weekNumber). SnapshotDate row = now2"
    unfolding rows by (auto simp: snapshotOf_def)
  have others: "\<forall>month' year' weekNumber'.
          \<not> (month' = month \<and> year' = year \<and> weekNumber' = weekNumber)
          \<longrightarrow> rowsOfWeek table2 month' year' weekNumber'
               = rowsOfWeek table1 month' year' weekNumber'"
    unfolding t2 rowsOfWeek_append rowsOfWeek_snapshotOf rowsOfWeek_deleted by simp
  show ?thesis
    apply (intro conjI)
        apply (rule rows)
       apply (rule len)
      apply (rule ids)
     apply (rule dates)
    apply (rule others)
    done
qed

text \<open>Week 2 of April 2025 saved with response A at time 100, then with B at time 200.\<close>

theorem SaveSnapshot_replaces_witness:
  "snd (SaveSnapshot None (\<lambda>i. None) 100 [] [responseA] 4 2025 2)
     = [snapshotOf 100 4 2025 2 responseA]
   \<and> SaveSnapshot None (\<lambda>i. None) 200 [snapshotOf 100 4 2025 2 responseA] [responseB] 4 2025 2
     = (None, [snapshotOf 200 4 2025 2 responseB])
   \<and> rowsOfWeek [snapshotOf 200 4 2025 2 responseB] 4 2025 2
     = map (snapshotOf 200 4 2025 2) [responseB]
   \<and> map IndicatorID [snapshotOf 200 4 2025 2 responseB] = [''KPI-03'']"
proof -
  have first: "[snapshotOf 100 4 2025 2 responseA]
                 = snd (SaveSnapshot None (\<lambda>i. None) 100 [] [responseA] 4 2025 2)"
    by (simp add: SaveSnapshot_def)
  have second:
    "SaveSnapshot None (\<lambda>i. None) 200 [snapshotOf 100 4 2025 2 responseA] [responseB] 4 2025 2
       = (None, [snapshotOf 200 4 2025 2 responseB])"
    by (simp add: SaveSnapshot_def snapshotOf_def)
  note th = SaveSnapshot_replaces [OF first second]
  have ids: "map IndicatorID [snapshotOf 200 4 2025 2 responseB] = [''KPI-03'']"
    by (simp add: snapshotOf_def responseB_def)
  show ?thesis
    apply (intro conjI)
       apply (rule first [symmetric])
      apply (rule second)
     apply (rule th [THEN conjunct1])
    apply (rule ids)
    done
qed

text \<open>
  The claim as stated fails when the delete of the second call fails: the code logs a
  warning and inserts all the same. The call returns no error, and the week holds the
  row of A and the row of B.
\<close>

theorem SaveSnapshot_union_counterexample:
  "SaveSnapshot None (\<lambda>i. None) 100 [] [responseA] 4 2025 2
     = (None, [snapshotOf 100 4 2025 2 responseA])
   \<and> SaveSnapshot (Some ''lock timeout'') (\<lambda>i. None) 200
       [snapshotOf 100 4 2025 2 responseA] [responseB] 4 2025 2
     = (None, [snapshotOf 100 4 2025 2 responseA, snapshotOf 200 4 2025 2 responseB])
   \<and> map IndicatorID
       (rowsOfWeek [snapshotOf 100 4 2025 2 responseA, snapshotOf 200 4 2025 2 responseB]
          4 2025 2)
     = [''KPI-01'', ''KPI-03'']"
  by (simp add: SaveSnapshot_def rowsOfWeek_def snapshotOf_def responseA_def responseB_def)

section \<open>Properties of the layout cache\<close>

subsection \<open>Counting calls at a location\<close>






subsection \<open>Fields after a move\<close>

lemma moveTo_fields [simp]:
  "calls (moveTo i l s) = (calls s)[i := l]"
  "layout (moveTo i l s) = layout s"
  "clock (moveTo i l s) = clock s"
  "layoutMu_readers (moveTo i l s) = layoutMu_readers s"
  "layoutMu_writer (moveTo i l s) = layoutMu_writer s"
  "discoveries (moveTo i l s) = discoveries s"
  by (simp_all add: moveTo_def)



lemma numCalls_fields [simp]:
  "numCalls P (s\<lparr>layoutMu_readers := n\<rparr>) = numCalls P s"
  "numCalls P (s\<lparr>layoutMu_writer := w\<rparr>) = numCalls P s"
  "numCalls P (s\<lparr>layout := c\<rparr>) = numCalls P s"
  "numCalls P (s\<lparr>clock := t\<rparr>) = numCalls P s"
  "numCalls P (s\<lparr>discoveries := d\<rparr>) = numCalls P s"
  "numCalls P (s\<lparr>calls := calls s @ [l]\<rparr>) = numCalls P s + (if P l then 1 else 0)"
  by (simp_all add: numCalls_def)



subsection \<open>The lock is used as a lock\<close>



subsection \<open>A refresh is in flight only while the cache is stale\<close>

lemma freshLayout_fields [simp]:
  "freshLayout (moveTo i l s) = freshLayout s"
  "freshLayout (s\<lparr>layoutMu_readers := n\<rparr>) = freshLayout s"
  "freshLayout (s\<lparr>layoutMu_writer := w\<rparr>) = freshLayout s"
  "freshLayout (s\<lparr>discoveries := d\<rparr>) = freshLayout s"
  "freshLayout (s\<lparr>calls := cs\<rparr>) = freshLayout s"
  "freshLayout (s\<lparr>layout := None\<rparr>) = None"
  by (simp_all add: freshLayout_def moveTo_def split: option.splits)






subsection \<open>Steps from a state with a fresh cache\<close>




subsection \<open>Single flight\<close>







end
